theory Spec2Isabelle
  imports Complex_Main
begin

section \<open>JavaScript values\<close>

text \<open>
  The game is written in JavaScript. Its finite numbers are modelled as exact rationals
  (\<open>rat\<close>): every constant of the program is an integer or a half, and the program
  compares, adds, subtracts, multiplies, halves and rounds down (\<open>Math.floor\<close>), which is
  exact on the small values the game uses. A \<open>rat\<close> argument is therefore a finite number.

  The value \<open>NaN\<close> is a number of JavaScript too, and the program lets it through its
  checks: \<open>typeof NaN\<close> is \<open>'number'\<close>, and every comparison with \<open>NaN\<close> is false. A place
  that can hold it (a field of a bar, a stored stat, an amount of damage, the result of
  \<open>parseInt\<close>) has the type \<open>jsnum\<close>, which is \<open>rat option\<close> with \<open>None\<close> for \<open>NaN\<close>. A
  property that is not there reads as \<open>undefined\<close>, which in arithmetic, in comparisons and
  under \<open>||\<close> behaves as \<open>NaN\<close> does, so such a read is a \<open>jsnum\<close> as well. The infinities
  are not numbers of the model.

  Arguments that the program inspects with \<open>typeof\<close> or compares with \<open>===\<close> are values of
  the type \<open>jsval\<close>: \<open>Num v\<close> is the finite number \<open>v\<close>, and \<open>NaN\<close> is the number \<open>NaN\<close>.
\<close>

type_synonym jsnum = "rat option"

datatype jsval = Undefined | Null | Bool bool | Num rat | NaN | Str string

text \<open>The number that a value of type \<open>'number'\<close> is.\<close>

fun num_of :: "jsval \<Rightarrow> jsnum" where
  "num_of (Num v) = Some v"
| "num_of v = None"

datatype jstype = TUndefined | TObject | TBoolean | TNumber | TString

fun typeof :: "jsval \<Rightarrow> jstype" where
  "typeof Undefined = TUndefined"
| "typeof Null = TObject"
| "typeof (Bool b) = TBoolean"
| "typeof (Num n) = TNumber"
| "typeof NaN = TNumber"
| "typeof (Str s) = TString"

text \<open>
  Every \<open>throw new Error(...)\<close> of the sources is a constructor of \<open>error\<close>, told apart
  by its message.
\<close>

datatype error =
    InvalidStatType jsval
  | InvalidStatValue jsval
  | InvalidBarMax jsnum
  | InvalidMonsterData

text \<open>\<open>a || b\<close> on a number that may be missing: \<open>undefined\<close>, \<open>NaN\<close> and \<open>0\<close> are falsy.\<close>

definition js_or :: "rat option \<Rightarrow> rat \<Rightarrow> rat" where
  "js_or a b = (case a of None \<Rightarrow> b | Some x \<Rightarrow> if x = 0 then b else x)"

text \<open>The same \<open>a || b\<close> where \<open>b\<close> itself may be \<open>NaN\<close>.\<close>

definition js_or_num :: "rat option \<Rightarrow> jsnum \<Rightarrow> jsnum" where
  "js_or_num a b = (case a of None \<Rightarrow> b | Some x \<Rightarrow> if x = 0 then b else Some x)"

text \<open>\<open>odds(probability)\<close> of utils.js: \<open>Math.random() < probability\<close>. The draw is an
  argument; \<open>Math.random\<close> returns a number in \<open>[0, 1)\<close>. A comparison with \<open>NaN\<close> is false.\<close>

definition odds :: "rat \<Rightarrow> rat option \<Rightarrow> bool" where
  "odds draw probability = (case probability of None \<Rightarrow> False | Some p \<Rightarrow> draw < p)"

text \<open>Truthiness, and arithmetic in which \<open>NaN\<close> is absorbing.\<close>

definition truthy :: "jsval \<Rightarrow> bool" where
  "truthy v = (case v of Undefined \<Rightarrow> False | Null \<Rightarrow> False | Bool b \<Rightarrow> b
                 | Num n \<Rightarrow> n \<noteq> 0 | NaN \<Rightarrow> False | Str s \<Rightarrow> s \<noteq> [])"

definition js_add :: "rat option \<Rightarrow> rat option \<Rightarrow> rat option" where
  "js_add a b = (case (a, b) of (Some x, Some y) \<Rightarrow> Some (x + y) | _ \<Rightarrow> None)"

definition js_mul :: "rat option \<Rightarrow> rat option \<Rightarrow> rat option" where
  "js_mul a b = (case (a, b) of (Some x, Some y) \<Rightarrow> Some (x * y) | _ \<Rightarrow> None)"

definition js_div :: "rat option \<Rightarrow> rat \<Rightarrow> rat option" where
  "js_div a d = map_option (\<lambda>x. x / d) a"

definition js_sub :: "jsnum \<Rightarrow> jsnum \<Rightarrow> jsnum" where
  "js_sub a b = (case (a, b) of (Some x, Some y) \<Rightarrow> Some (x - y) | _ \<Rightarrow> None)"

text \<open>The comparisons \<open>a <= b\<close>, \<open>a > b\<close> and \<open>a >= b\<close>: false as soon as one side is
  \<open>NaN\<close>.\<close>

definition js_le :: "jsnum \<Rightarrow> jsnum \<Rightarrow> bool" where
  "js_le a b = (case (a, b) of (Some x, Some y) \<Rightarrow> x \<le> y | _ \<Rightarrow> False)"

definition js_gt :: "jsnum \<Rightarrow> jsnum \<Rightarrow> bool" where
  "js_gt a b = (case (a, b) of (Some x, Some y) \<Rightarrow> x > y | _ \<Rightarrow> False)"

definition js_ge :: "jsnum \<Rightarrow> jsnum \<Rightarrow> bool" where
  "js_ge a b = (case (a, b) of (Some x, Some y) \<Rightarrow> x \<ge> y | _ \<Rightarrow> False)"

text \<open>\<open>Math.max(a, b)\<close> and \<open>Math.min(a, b)\<close>: \<open>NaN\<close> as soon as one argument is \<open>NaN\<close>.\<close>

definition js_max :: "jsnum \<Rightarrow> jsnum \<Rightarrow> jsnum" where
  "js_max a b = (case (a, b) of (Some x, Some y) \<Rightarrow> Some (max x y) | _ \<Rightarrow> None)"

definition js_min :: "jsnum \<Rightarrow> jsnum \<Rightarrow> jsnum" where
  "js_min a b = (case (a, b) of (Some x, Some y) \<Rightarrow> Some (min x y) | _ \<Rightarrow> None)"

section \<open>config.js\<close>

text \<open>
  config.js is not among the sources. Its exports are the fields of the record \<open>config\<close>,
  and every definition below takes the configuration as its first argument:
  \<open>StatType\<close> is the object that names the abilities, as the list of its properties
  (name, string value); the four constants that follow are the properties of
  \<open>GAME_CONSTANTS\<close> that the sources read, taken to be numbers; the last two fields are the
  exports \<open>DEFAULT_PLAYER_STATS\<close> (an object, as the list of its properties) and
  \<open>DEFAULT_PLAYER_BASE_HP\<close>.
\<close>

record config =
  StatType :: "(string \<times> string) list"
  BASE_HIT_CHANCE :: rat
  BASE_EVASION_RATE :: rat
  BASE_CRITICAL_CHANCE :: rat
  CRITICAL_MULTIPLIER :: rat
  DEFAULT_PLAYER_STATS :: "(string \<times> rat) list"
  DEFAULT_PLAYER_BASE_HP :: rat

text \<open>\<open>Object.values(StatType)\<close>.\<close>

definition Object_values :: "config \<Rightarrow> string list" where
  "Object_values cfg = map snd (StatType cfg)"

text \<open>\<open>StatType.NAME\<close>: \<open>undefined\<close> when the object has no such property.\<close>

definition StatType_prop :: "config \<Rightarrow> string \<Rightarrow> jsval" where
  "StatType_prop cfg name = (case map_of (StatType cfg) name of None \<Rightarrow> Undefined | Some v \<Rightarrow> Str v)"

text \<open>\<open>Array.prototype.includes\<close> on an array of strings.\<close>

definition array_includes :: "string list \<Rightarrow> jsval \<Rightarrow> bool" where
  "array_includes xs v = (case v of Str k \<Rightarrow> k \<in> set xs | _ \<Rightarrow> False)"

section \<open>stats.js and calculateStatBonus\<close>

text \<open>The object \<open>_values\<close>: a property that is there holds a number, which may be \<open>NaN\<close>;
  a property that is not there reads as \<open>undefined\<close>.\<close>

record Stats =
  stat_values :: "string \<rightharpoonup> jsnum"

text \<open>The constructor writes one entry per value of \<open>StatType\<close>: the supplied number,
  or 10 when \<open>values[type]\<close> is \<open>undefined\<close>.\<close>

definition Stats_new :: "config \<Rightarrow> (string \<rightharpoonup> rat) \<Rightarrow> Stats" where
  "Stats_new cfg vals =
     \<lparr> stat_values =
         foldl (\<lambda>acc type. acc(type \<mapsto> Some (case vals type of Some v \<Rightarrow> v | None \<Rightarrow> 10)))
           Map.empty (Object_values cfg) \<rparr>"

text \<open>\<open>get(statType)\<close>. A key that \<open>includes\<close> accepts is a string, so the last case is
  never taken.\<close>

definition Stats_get :: "config \<Rightarrow> Stats \<Rightarrow> jsval \<Rightarrow> error + rat option" where
  "Stats_get cfg s statType =
     (if \<not> array_includes (Object_values cfg) statType then
        (if statType = Str ''LUCK'' then Inr (Some 10) else Inl (InvalidStatType statType))
      else (case statType of
              Str k \<Rightarrow> Inr (case stat_values s k of None \<Rightarrow> None | Some n \<Rightarrow> n)
            | _ \<Rightarrow> Inr None))"

text \<open>\<open>set(statType, value)\<close> changes the object or throws; the result is the pair of the
  outcome and the object after the call. The second check is
  \<open>typeof value !== 'number' || value < 0\<close>: \<open>NaN\<close> has the type \<open>'number'\<close> and \<open>NaN < 0\<close> is
  false, so \<open>NaN\<close> gets past it and is stored. Past the two checks \<open>statType\<close> is a string,
  so the last case is never taken.\<close>

definition Stats_set :: "config \<Rightarrow> jsval \<Rightarrow> jsval \<Rightarrow> Stats \<Rightarrow> (error + unit) \<times> Stats" where
  "Stats_set cfg statType val s =
     (if \<not> array_includes (Object_values cfg) statType then (Inl (InvalidStatType statType), s)
      else if typeof val \<noteq> TNumber \<or> (case val of Num v \<Rightarrow> v < 0 | _ \<Rightarrow> False)
        then (Inl (InvalidStatValue val), s)
      else (case statType of
              Str k \<Rightarrow> (Inr (), s\<lparr> stat_values := (stat_values s)(k \<mapsto> num_of val) \<rparr>)
            | _ \<Rightarrow> (Inr (), s)))"

text \<open>\<open>calculateStatBonus\<close> of utils.js: \<open>Math.floor((statValue - 10) / 2)\<close>.\<close>

definition calculateStatBonus :: "rat option \<Rightarrow> rat option" where
  "calculateStatBonus statValue = map_option (\<lambda>v. of_int \<lfloor>(v - 10) / 2\<rfloor>) statValue"

definition Stats_getBonus :: "config \<Rightarrow> Stats \<Rightarrow> jsval \<Rightarrow> error + rat option" where
  "Stats_getBonus cfg s statType =
     (if \<not> array_includes (Object_values cfg) statType \<and> statType \<noteq> Str ''LUCK'' then Inr (Some 0)
      else (case Stats_get cfg s statType of
              Inl e \<Rightarrow> Inl e
            | Inr v \<Rightarrow> Inr (calculateStatBonus v)))"

section \<open>bar.js\<close>

text \<open>The fields \<open>_max\<close> and \<open>_position\<close>. Each holds a number, which may be \<open>NaN\<close>.\<close>

record Bar =
  bar_max :: jsnum
  bar_position :: jsnum

text \<open>\<open>new Bar(max, initialPosition = max)\<close>: the second argument is \<open>None\<close> when the
  caller leaves it out. The check is \<open>max <= 0\<close>, which is false for \<open>NaN\<close>.\<close>

definition Bar_new :: "jsnum \<Rightarrow> jsnum option \<Rightarrow> error + Bar" where
  "Bar_new mx initialPosition =
     (if js_le mx (Some 0) then Inl (InvalidBarMax mx)
      else Inr \<lparr> bar_max = mx,
                 bar_position =
                   js_min (js_max (Some 0) (case initialPosition of None \<Rightarrow> mx | Some p \<Rightarrow> p))
                     mx \<rparr>)"

text \<open>\<open>set value(newPosition)\<close>: \<open>Math.min(Math.max(0, newPosition), this._max)\<close>.\<close>

definition Bar_set_value :: "Bar \<Rightarrow> jsnum \<Rightarrow> Bar" where
  "Bar_set_value b newPosition =
     b\<lparr> bar_position := js_min (js_max (Some 0) newPosition) (bar_max b) \<rparr>"

text \<open>\<open>set max(newMax)\<close>: throws before it changes anything. The check is \<open>newMax <= 0\<close>, and
  the position is lowered when \<open>this._position > this._max\<close>; both are false for \<open>NaN\<close>.\<close>

definition Bar_set_max :: "Bar \<Rightarrow> jsnum \<Rightarrow> error + Bar" where
  "Bar_set_max b newMax =
     (if js_le newMax (Some 0) then Inl (InvalidBarMax newMax)
      else (let b1 = b\<lparr> bar_max := newMax \<rparr>
            in Inr (if js_gt (bar_position b1) (bar_max b1) then b1\<lparr> bar_position := bar_max b1 \<rparr>
                    else b1)))"

definition Bar_isFull :: "Bar \<Rightarrow> bool" where
  "Bar_isFull b = js_ge (bar_position b) (bar_max b)"

definition Bar_isEmpty :: "Bar \<Rightarrow> bool" where
  "Bar_isEmpty b = js_le (bar_position b) (Some 0)"

section \<open>level.js\<close>

text \<open>The fields \<open>value\<close>, \<open>exp\<close> and \<open>expToNextLevel\<close>, and the two constants of
  \<open>LEVEL_CONSTANTS\<close>.\<close>

record Level =
  level_value :: rat
  level_exp :: rat
  expToNextLevel :: rat

definition BASE_EXP_TO_NEXT_LEVEL :: rat where
  "BASE_EXP_TO_NEXT_LEVEL = 100"

definition EXP_MULTIPLIER_PER_LEVEL :: rat where
  "EXP_MULTIPLIER_PER_LEVEL = 3 / 2"

definition calculateExpToNextLevel :: "Level \<Rightarrow> rat" where
  "calculateExpToNextLevel l =
     of_int \<lfloor>BASE_EXP_TO_NEXT_LEVEL * (level_value l * EXP_MULTIPLIER_PER_LEVEL)\<rfloor>"

text \<open>\<open>new Level(initialLevel = 1, initialExp = 0)\<close>.\<close>

definition Level_new :: "rat option \<Rightarrow> rat option \<Rightarrow> Level" where
  "Level_new initialLevel initialExp =
     (let l = \<lparr> level_value = (case initialLevel of None \<Rightarrow> 1 | Some v \<Rightarrow> v),
                 level_exp = (case initialExp of None \<Rightarrow> 0 | Some e \<Rightarrow> e),
                 expToNextLevel = 0 \<rparr>
      in l\<lparr> expToNextLevel := calculateExpToNextLevel l \<rparr>)"

text \<open>\<open>levelUp()\<close>: the surplus is carried over, the level grows by one, the threshold is
  computed again.\<close>

definition levelUp :: "Level \<Rightarrow> Level" where
  "levelUp l =
     (let l1 = l\<lparr> level_exp := level_exp l - expToNextLevel l \<rparr>;
          l2 = l1\<lparr> level_value := level_value l1 + 1 \<rparr>
      in l2\<lparr> expToNextLevel := calculateExpToNextLevel l2 \<rparr>)"

text \<open>
  The \<open>while\<close> loop of \<open>checkAndProcessLevelUp\<close>, with the local \<open>leveledUp\<close> as its
  second argument. It ends on every state: after the first pass the stored threshold is
  the computed one; the level grows by one per pass, so it reaches 1; from then on the
  threshold is at least 150 and the experience falls by at least that much per pass.
\<close>

function levelUp_loop :: "Level \<Rightarrow> bool \<Rightarrow> bool \<times> Level" where
  "levelUp_loop l leveledUp =
     (if level_exp l \<ge> expToNextLevel l then levelUp_loop (levelUp l) True
      else (leveledUp, l))"
  by pat_completeness auto
termination
proof (relation "measures [\<lambda>(l, f). if expToNextLevel l = of_int \<lfloor>150 * level_value l\<rfloor> then 0 else 1,
                          \<lambda>(l, f). nat \<lceil>1 - level_value l\<rceil>,
                          \<lambda>(l, f). nat \<lceil>level_exp l\<rceil>]")
  show "wf (measures [\<lambda>(l, f). if expToNextLevel l = of_int \<lfloor>150 * level_value l\<rfloor> then 0 else 1,
                      \<lambda>(l, f). nat \<lceil>1 - level_value l\<rceil>,
                      \<lambda>(l, f). nat \<lceil>level_exp l\<rceil>])"
    by simp
next
  fix l :: Level and leveledUp :: bool
  assume ge: "expToNextLevel l \<le> level_exp l"
  have up: "level_value (levelUp l) = level_value l + 1"
    "level_exp (levelUp l) = level_exp l - expToNextLevel l"
    "expToNextLevel (levelUp l) = of_int \<lfloor>150 * level_value (levelUp l)\<rfloor>"
    by (simp_all add: levelUp_def Let_def calculateExpToNextLevel_def
        BASE_EXP_TO_NEXT_LEVEL_def EXP_MULTIPLIER_PER_LEVEL_def algebra_simps)
  show "((levelUp l, True), (l, leveledUp))
          \<in> measures [\<lambda>(l, f). if expToNextLevel l = of_int \<lfloor>150 * level_value l\<rfloor> then 0 else 1,
                      \<lambda>(l, f). nat \<lceil>1 - level_value l\<rceil>,
                      \<lambda>(l, f). nat \<lceil>level_exp l\<rceil>]"
  proof (cases "expToNextLevel l = of_int \<lfloor>150 * level_value l\<rfloor>")
    case False
    with up(3) show ?thesis by simp
  next
    case stored: True
    show ?thesis
    proof (cases "level_value l < 1")
      case True
      then have "\<lceil>1 - (level_value l + 1)\<rceil> < \<lceil>1 - level_value l\<rceil>" "0 < \<lceil>1 - level_value l\<rceil>"
        by (simp_all add: ceiling_less_iff) linarith+
      with up(3) stored show ?thesis
        by (simp add: up(1))
    next
      case False
      then have v1: "1 \<le> level_value l" by simp
      then have "(150::rat) \<le> 150 * level_value l" by simp
      then have "150 \<le> \<lfloor>150 * level_value l\<rfloor>" by (simp add: le_floor_iff)
      then have t: "150 \<le> expToNextLevel l" using stored by simp
      have "\<lceil>1 - (level_value l + 1)\<rceil> \<le> 0" "\<lceil>1 - level_value l\<rceil> \<le> 0"
        using v1 by (simp_all add: ceiling_le_iff)
      moreover have "\<lceil>level_exp l - expToNextLevel l\<rceil> < \<lceil>level_exp l\<rceil>" "0 < \<lceil>level_exp l\<rceil>"
        using t ge by (simp_all add: ceiling_less_iff less_ceiling_iff) linarith+
      ultimately show ?thesis using up(3) stored
        by (simp add: up(1,2))
    qed
  qed
qed

declare levelUp_loop.simps [simp del]

definition checkAndProcessLevelUp :: "Level \<Rightarrow> bool \<times> Level" where
  "checkAndProcessLevelUp l = levelUp_loop l False"

definition gainExp :: "Level \<Rightarrow> rat \<Rightarrow> bool \<times> Level" where
  "gainExp l amount = checkAndProcessLevelUp (l\<lparr> level_exp := level_exp l + amount \<rparr>)"

section \<open>String.prototype.split and parseInt\<close>

text \<open>
  Strings are lists of characters. \<open>split_on c s\<close> is \<open>s.split(c)\<close> for a separator of
  one character: the pieces between the separators, so that a string without the separator
  is its own single piece. \<open>nth_opt xs i\<close> is \<open>xs[i]\<close>, with \<open>None\<close> for \<open>undefined\<close>.
\<close>

fun split_on :: "char \<Rightarrow> string \<Rightarrow> string list" where
  "split_on c [] = [[]]"
| "split_on c (x # xs) =
     (if x = c then [] # split_on c xs
      else (case split_on c xs of y # ys \<Rightarrow> (x # y) # ys | [] \<Rightarrow> [[x]]))"

definition nth_opt :: "'a list \<Rightarrow> nat \<Rightarrow> 'a option" where
  "nth_opt xs i = (if i < length xs then Some (xs ! i) else None)"

text \<open>
  \<open>parseInt(str)\<close> without a radix: leading white space is skipped (here the ASCII white
  space), then an optional sign, then the prefix \<open>0x\<close> or \<open>0X\<close> (which selects radix 16),
  then the longest run of digits of the radix. No digit at all gives \<open>NaN\<close>.
\<close>

definition is_ws :: "char \<Rightarrow> bool" where
  "is_ws c = ((of_char c :: nat) \<in> {9, 10, 11, 12, 13, 32})"

definition digit_of :: "nat \<Rightarrow> char \<Rightarrow> nat option" where
  "digit_of radix c =
     (let n = (of_char c :: nat);
          v = (if 48 \<le> n \<and> n \<le> 57 then Some (n - 48)
               else if 97 \<le> n \<and> n \<le> 122 then Some (n - 87)
               else if 65 \<le> n \<and> n \<le> 90 then Some (n - 55)
               else None)
      in case v of None \<Rightarrow> None | Some d \<Rightarrow> if d < radix then Some d else None)"

definition parseInt :: "string \<Rightarrow> rat option" where
  "parseInt str =
     (let s0 = dropWhile is_ws str;
          sign = (case s0 of c # r \<Rightarrow> if c = CHR ''-'' then - 1 else 1 | [] \<Rightarrow> (1 :: rat));
          s1 = (case s0 of c # r \<Rightarrow> if c = CHR ''-'' \<or> c = CHR ''+'' then r else s0 | [] \<Rightarrow> s0);
          hex = (case s1 of a # b # r \<Rightarrow> a = CHR ''0'' \<and> (b = CHR ''x'' \<or> b = CHR ''X'') | _ \<Rightarrow> False);
          radix = (if hex then 16 else 10);
          s2 = (if hex then drop 2 s1 else s1);
          z = takeWhile (\<lambda>c. digit_of radix c \<noteq> None) s2
      in if z = [] then None
         else Some (sign * of_nat (foldl (\<lambda>a c. a * radix + (case digit_of radix c of Some d \<Rightarrow> d | None \<Rightarrow> 0)) 0 z)))"

section \<open>monster.js\<close>

text \<open>The object the constructor receives (parsed JSON): a property that is missing
  is \<open>None\<close>.\<close>

record MonsterData =
  md_name :: "string option"
  md_description :: "string option"
  md_hp :: "rat option"
  md_base_exp :: "rat option"
  md_drop_chance :: "rat option"
  md_stats :: "(string \<rightharpoonup> rat) option"
  md_special_abilities :: "string list option"

record Monster =
  m_name :: string
  m_description :: string
  m_baseExp :: rat
  m_dropChance :: rat
  m_specialAbilities :: "string list"
  m_stats :: Stats
  m_hpBar :: Bar

text \<open>\<open>a || b\<close> on a string that may be missing: \<open>undefined\<close> and the empty string are
  falsy.\<close>

definition str_or :: "string option \<Rightarrow> string \<Rightarrow> string" where
  "str_or a b = (case a of None \<Rightarrow> b | Some s \<Rightarrow> if s = [] then b else s)"

text \<open>The constructor: it throws unless the data, its name, its stats and its hp are
  truthy; \<open>HP\<close> is removed from the stats before they reach \<open>Stats\<close>; the bar throws on a
  negative hp.\<close>

definition Monster_new :: "config \<Rightarrow> MonsterData option \<Rightarrow> error + Monster" where
  "Monster_new cfg monsterData =
     (case monsterData of
        None \<Rightarrow> Inl InvalidMonsterData
      | Some d \<Rightarrow>
          (case (md_stats d, md_hp d) of
             (Some stats, Some hp) \<Rightarrow>
               if str_or (md_name d) [] = [] \<or> hp = 0 then Inl InvalidMonsterData
               else
                 (let coreStats = stats(''HP'' := None) in
                  case Bar_new (Some hp) (Some (Some hp)) of
                    Inl e \<Rightarrow> Inl e
                  | Inr bar \<Rightarrow>
                      Inr \<lparr> m_name = str_or (md_name d) [],
                            m_description = str_or (md_description d) ''An ordinary monster.'',
                            m_baseExp = js_or (md_base_exp d) 10,
                            m_dropChance = js_or (md_drop_chance d) (1 / 2),
                            m_specialAbilities =
                              (case md_special_abilities d of None \<Rightarrow> [] | Some xs \<Rightarrow> xs),
                            m_stats = Stats_new cfg coreStats,
                            m_hpBar = bar \<rparr>)
           | _ \<Rightarrow> Inl InvalidMonsterData))"

text \<open>The getters. \<open>attackPower\<close> is \<open>Math.max(1, this.stats.get(StatType.STRENGTH) || 5)\<close>
  and \<open>defense\<close> is \<open>Math.max(0, (this.stats.get(StatType.CONSTITUTION) || 1) / 2)\<close>.\<close>

definition Monster_attackPower :: "config \<Rightarrow> Monster \<Rightarrow> error + rat" where
  "Monster_attackPower cfg m =
     (case Stats_get cfg (m_stats m) (StatType_prop cfg ''STRENGTH'') of
        Inl e \<Rightarrow> Inl e
      | Inr v \<Rightarrow> Inr (max 1 (js_or v 5)))"

definition Monster_defense :: "config \<Rightarrow> Monster \<Rightarrow> error + rat" where
  "Monster_defense cfg m =
     (case Stats_get cfg (m_stats m) (StatType_prop cfg ''CONSTITUTION'') of
        Inl e \<Rightarrow> Inl e
      | Inr v \<Rightarrow> Inr (max 0 (js_or v 1 / 2)))"

definition Monster_hitChance :: "config \<Rightarrow> Monster \<Rightarrow> rat" where
  "Monster_hitChance cfg m = BASE_HIT_CHANCE cfg"

definition Monster_evasionRate :: "config \<Rightarrow> Monster \<Rightarrow> rat" where
  "Monster_evasionRate cfg m = BASE_EVASION_RATE cfg"

definition Monster_criticalChance :: "config \<Rightarrow> Monster \<Rightarrow> rat" where
  "Monster_criticalChance cfg m = BASE_CRITICAL_CHANCE cfg"

text \<open>\<open>takeDamage(amount)\<close>: \<open>this.hpBar.value -= amount\<close>, then the result of
  \<open>isEmpty()\<close>. The result is paired with the monster after the call. The amount is
  whatever the caller computed, \<open>NaN\<close> included.\<close>

definition Monster_takeDamage :: "Monster \<Rightarrow> jsnum \<Rightarrow> bool \<times> Monster" where
  "Monster_takeDamage m amount =
     (let m' = m\<lparr> m_hpBar :=
                    Bar_set_value (m_hpBar m) (js_sub (bar_position (m_hpBar m)) amount) \<rparr>
      in (if Bar_isEmpty (m_hpBar m') then True else False, m'))"

section \<open>player.js\<close>

text \<open>An item record as the item generator returns it; \<open>damage\<close> may be missing.\<close>

record Weapon =
  w_name :: string
  w_type :: string
  w_damage :: "string option"
  w_effect :: string

record Player =
  p_name :: string
  p_gold :: rat
  p_level :: Level
  p_stats :: Stats
  p_hpBar :: Bar
  p_mpBar :: Bar
  p_inventory :: "Weapon list"
  p_equippedWeapon :: "Weapon option"

text \<open>
  \<open>attackPower\<close>: \<open>5 + getBonus(STRENGTH)\<close>; when a weapon is equipped and its \<open>damage\<close>
  is truthy, \<open>parseInt(damage.split('d')[1]) / 2 + 1\<close> is added; the result is
  \<open>Math.floor(Math.max(1, baseAttack))\<close>.
\<close>

definition Player_attackPower :: "config \<Rightarrow> Player \<Rightarrow> error + rat option" where
  "Player_attackPower cfg p =
     (case Stats_getBonus cfg (p_stats p) (StatType_prop cfg ''STRENGTH'') of
        Inl e \<Rightarrow> Inl e
      | Inr bonus \<Rightarrow>
          (let baseAttack = js_add (Some 5) bonus;
               baseAttack' =
                 (case p_equippedWeapon p of
                    None \<Rightarrow> baseAttack
                  | Some w \<Rightarrow>
                      (case w_damage w of
                         None \<Rightarrow> baseAttack
                       | Some dmg \<Rightarrow>
                           if dmg = [] then baseAttack
                           else
                             (let damageDie =
                                    (case nth_opt (split_on (CHR ''d'') dmg) 1 of
                                       None \<Rightarrow> None
                                     | Some part \<Rightarrow> parseInt part)
                              in js_add baseAttack (js_add (js_div damageDie 2) (Some 1)))))
           in Inr (map_option (\<lambda>x. of_int \<lfloor>max 1 x\<rfloor>) baseAttack')))"

text \<open>The other getters: \<open>defense\<close>, \<open>hitChance\<close> and \<open>evasionRate\<close> read the bonus of
  \<open>StatType.DEXTERITY\<close>.\<close>

definition Player_defense :: "config \<Rightarrow> Player \<Rightarrow> error + rat option" where
  "Player_defense cfg p =
     (case Stats_getBonus cfg (p_stats p) (StatType_prop cfg ''DEXTERITY'') of
        Inl e \<Rightarrow> Inl e
      | Inr bonus \<Rightarrow> Inr (js_add (Some 2) bonus))"

definition Player_hitChance :: "config \<Rightarrow> Player \<Rightarrow> error + rat option" where
  "Player_hitChance cfg p =
     (case Stats_getBonus cfg (p_stats p) (StatType_prop cfg ''DEXTERITY'') of
        Inl e \<Rightarrow> Inl e
      | Inr bonus \<Rightarrow> Inr (js_add (Some (BASE_HIT_CHANCE cfg)) (js_mul bonus (Some 2))))"

definition Player_evasionRate :: "config \<Rightarrow> Player \<Rightarrow> error + rat option" where
  "Player_evasionRate cfg p =
     (case Stats_getBonus cfg (p_stats p) (StatType_prop cfg ''DEXTERITY'') of
        Inl e \<Rightarrow> Inl e
      | Inr bonus \<Rightarrow> Inr (js_add (Some (BASE_EVASION_RATE cfg)) (js_mul bonus (Some 1))))"

text \<open>\<open>criticalChance\<close> reads the bonus of \<open>StatType.LUCK || StatType.DEXTERITY\<close>.\<close>

definition Player_criticalChance :: "config \<Rightarrow> Player \<Rightarrow> error + rat option" where
  "Player_criticalChance cfg p =
     (case Stats_getBonus cfg (p_stats p)
             (if truthy (StatType_prop cfg ''LUCK'') then StatType_prop cfg ''LUCK''
              else StatType_prop cfg ''DEXTERITY'') of
        Inl e \<Rightarrow> Inl e
      | Inr bonus \<Rightarrow> Inr (js_add (Some (BASE_CRITICAL_CHANCE cfg)) (js_mul bonus (Some (1 / 2)))))"

text \<open>The constructor's argument, and the constructor. \<open>maxHp\<close> and \<open>maxMp\<close> read only
  the level and the stats, which the constructor has set when it calls them. The bars are
  \<open>new Bar(hp || this.maxHp, this.maxHp)\<close> and \<open>new Bar(mp || this.maxMp, this.maxMp)\<close>.\<close>

record PlayerArgs =
  a_name :: "string option"
  a_stats :: "(string \<rightharpoonup> rat) option"
  a_hp :: "rat option"
  a_mp :: "rat option"
  a_exp :: "rat option"
  a_level :: "rat option"
  a_gold :: "rat option"
  a_inventory :: "Weapon list option"
  a_equippedWeapon :: "Weapon option"

definition maxHp_of :: "config \<Rightarrow> Level \<Rightarrow> Stats \<Rightarrow> error + rat option" where
  "maxHp_of cfg lvl st =
     (case Stats_getBonus cfg st (StatType_prop cfg ''CONSTITUTION'') of
        Inl e \<Rightarrow> Inl e
      | Inr bonus \<Rightarrow>
          Inr (js_add (Some (DEFAULT_PLAYER_BASE_HP cfg + level_value lvl * 5))
                 (js_mul bonus (Some 2))))"

definition maxMp_of :: "config \<Rightarrow> Level \<Rightarrow> Stats \<Rightarrow> error + rat option" where
  "maxMp_of cfg lvl st =
     (case Stats_getBonus cfg st (StatType_prop cfg ''INTELLIGENCE'') of
        Inl e \<Rightarrow> Inl e
      | Inr bonus \<Rightarrow> Inr (js_add (Some (10 + level_value lvl * 2)) (js_mul bonus (Some 1))))"

definition Player_maxHp :: "config \<Rightarrow> Player \<Rightarrow> error + rat option" where
  "Player_maxHp cfg p = maxHp_of cfg (p_level p) (p_stats p)"

definition Player_maxMp :: "config \<Rightarrow> Player \<Rightarrow> error + rat option" where
  "Player_maxMp cfg p = maxMp_of cfg (p_level p) (p_stats p)"

definition Player_new :: "config \<Rightarrow> PlayerArgs \<Rightarrow> error + Player" where
  "Player_new cfg a =
     (let lvl = Level_new (Some (js_or (a_level a) 1)) (Some (js_or (a_exp a) 0));
          st = Stats_new cfg
                 (case a_stats a of None \<Rightarrow> map_of (DEFAULT_PLAYER_STATS cfg) | Some vs \<Rightarrow> vs)
      in case maxHp_of cfg lvl st of
           Inl e \<Rightarrow> Inl e
         | Inr maxHp \<Rightarrow>
             (case Bar_new (js_or_num (a_hp a) maxHp) (Some maxHp) of
                Inl e \<Rightarrow> Inl e
              | Inr hpBar \<Rightarrow>
                  (case maxMp_of cfg lvl st of
                     Inl e \<Rightarrow> Inl e
                   | Inr maxMp \<Rightarrow>
                       (case Bar_new (js_or_num (a_mp a) maxMp) (Some maxMp) of
                          Inl e \<Rightarrow> Inl e
                        | Inr mpBar \<Rightarrow>
                            Inr \<lparr> p_name = str_or (a_name a) ''Elf Warrior'',
                                  p_gold = js_or (a_gold a) 0,
                                  p_level = lvl,
                                  p_stats = st,
                                  p_hpBar = hpBar,
                                  p_mpBar = mpBar,
                                  p_inventory =
                                    (case a_inventory a of None \<Rightarrow> [] | Some xs \<Rightarrow> xs),
                                  p_equippedWeapon =
                                    Some (case a_equippedWeapon a of
                                            None \<Rightarrow>
                                              \<lparr> w_name = ''Worn Dagger'', w_type = ''Weapon'',
                                                w_damage = Some ''1d4'', w_effect = ''None'' \<rparr>
                                          | Some w \<Rightarrow> w) \<rparr>))))"

definition Player_takeDamage :: "Player \<Rightarrow> jsnum \<Rightarrow> bool \<times> Player" where
  "Player_takeDamage p amount =
     (let p' = p\<lparr> p_hpBar :=
                    Bar_set_value (p_hpBar p) (js_sub (bar_position (p_hpBar p)) amount) \<rparr>
      in (if Bar_isEmpty (p_hpBar p') then True else False, p'))"

section \<open>main.js: one turn of each side\<close>

text \<open>
  The body of the combat loop of \<open>startGame\<close>, one side at a time. The calls of
  \<open>Math.random\<close> inside \<open>odds\<close> are arguments, in the order of the calls: the hit
  draw, the critical draw and (monster's turn only) the evasion draw. What a turn did is
  an \<open>attack\<close>: \<open>Landed a\<close> when \<open>takeDamage(a)\<close> was called with the mitigated damage
  \<open>a\<close>, a finite number, \<open>LandedNaN\<close> when it was called with the mitigated damage \<open>NaN\<close>,
  \<open>Evaded\<close> when the damage was set to 0 before the call, \<open>Missed\<close> when the hit test
  failed, \<open>NoAttack\<close> when the monster's action was not an attack. The action is what
  \<open>chooseAction\<close> returned (the generator itself is not modelled).
\<close>

datatype attack = NoAttack | Missed | Evaded | Landed rat | LandedNaN

definition landed :: "jsnum \<Rightarrow> attack" where
  "landed actualDamage = (case actualDamage of None \<Rightarrow> LandedNaN | Some a \<Rightarrow> Landed a)"

datatype action = Attack | Defend

definition player_turn ::
  "config \<Rightarrow> Player \<Rightarrow> Monster \<Rightarrow> rat \<Rightarrow> rat \<Rightarrow> error + attack \<times> Monster" where
  "player_turn cfg player monster hitDraw critDraw =
     (case Player_hitChance cfg player of
        Inl e \<Rightarrow> Inl e
      | Inr hitChance \<Rightarrow>
          if odds hitDraw (js_div hitChance 100) then
            (case Player_criticalChance cfg player of
               Inl e \<Rightarrow> Inl e
             | Inr criticalChance \<Rightarrow>
                 (let isCritical = odds critDraw (js_div criticalChance 100) in
                  case Player_attackPower cfg player of
                    Inl e \<Rightarrow> Inl e
                  | Inr attackPower \<Rightarrow>
                      (let damage =
                             (if isCritical
                              then map_option (\<lambda>d. of_int \<lfloor>d * CRITICAL_MULTIPLIER cfg\<rfloor>) attackPower
                              else attackPower)
                       in case Monster_defense cfg monster of
                            Inl e \<Rightarrow> Inl e
                          | Inr defense \<Rightarrow>
                              (let actualDamage =
                                     map_option (\<lambda>d. max 1 (d - of_int \<lfloor>defense\<rfloor>)) damage
                               in Inr (landed actualDamage,
                                       snd (Monster_takeDamage monster actualDamage))))))
          else Inr (Missed, monster))"

definition monster_turn ::
  "config \<Rightarrow> Monster \<Rightarrow> Player \<Rightarrow> action \<Rightarrow> rat \<Rightarrow> rat \<Rightarrow> rat \<Rightarrow> error + attack \<times> Player" where
  "monster_turn cfg monster player monsterAction hitDraw critDraw evadeDraw =
     (case monsterAction of
        Defend \<Rightarrow> Inr (NoAttack, player)
      | Attack \<Rightarrow>
          if odds hitDraw (Some (Monster_hitChance cfg monster / 100)) then
            (let isCritical = odds critDraw (Some (Monster_criticalChance cfg monster / 100)) in
             case Monster_attackPower cfg monster of
               Inl e \<Rightarrow> Inl e
             | Inr attackPower \<Rightarrow>
                 (let damage =
                        (if isCritical then of_int \<lfloor>attackPower * CRITICAL_MULTIPLIER cfg\<rfloor>
                         else attackPower)
                  in case Player_defense cfg player of
                       Inl e \<Rightarrow> Inl e
                     | Inr defense \<Rightarrow>
                         (let actualDamage =
                                map_option (\<lambda>d. max 1 (damage - of_int \<lfloor>d\<rfloor>)) defense
                          in case Player_evasionRate cfg player of
                               Inl e \<Rightarrow> Inl e
                             | Inr evasionRate \<Rightarrow>
                                 if odds evadeDraw (js_div evasionRate 100)
                                 then Inr (Evaded, snd (Player_takeDamage player (Some 0)))
                                 else Inr (landed actualDamage,
                                           snd (Player_takeDamage player actualDamage)))))
          else Inr (Missed, player))"

section \<open>Notions used in the statements\<close>

text \<open>The invariant of a bar: both fields are finite numbers, the position lies between
  0 and the maximum, and the maximum is positive.\<close>

definition Bar_inv :: "Bar \<Rightarrow> bool" where
  "Bar_inv b =
     (case (bar_position b, bar_max b) of
        (Some p, Some m) \<Rightarrow> 0 \<le> p \<and> p \<le> m \<and> 0 < m
      | _ \<Rightarrow> False)"

text \<open>The threshold of a level in the words of the specification:
  \<open>floor(BASE_EXP * level * MULTIPLIER)\<close> with \<open>BASE_EXP = 100\<close> and \<open>MULTIPLIER = 1.5\<close>.\<close>

definition threshold_at :: "rat \<Rightarrow> rat" where
  "threshold_at lv = of_int \<lfloor>100 * lv * (3 / 2)\<rfloor>"

text \<open>The thresholds that successive level-ups of a state meet: the stored one first,
  then the computed threshold of each level reached.\<close>

fun thr_seq :: "Level \<Rightarrow> nat \<Rightarrow> rat" where
  "thr_seq l 0 = expToNextLevel l"
| "thr_seq l (Suc i) = threshold_at (level_value l + of_nat (Suc i))"

text \<open>Dice notation: a decimal digit, and the number a string of digits denotes.\<close>

definition is_digit :: "char \<Rightarrow> bool" where
  "is_digit c = (48 \<le> (of_char c :: nat) \<and> (of_char c :: nat) \<le> 57)"

definition decimal :: "string \<Rightarrow> nat" where
  "decimal ds = foldl (\<lambda>a c. a * 10 + (of_char c - 48)) 0 ds"

text \<open>
  Concrete inputs, on which the theorems are evaluated. config.js is not among the sources,
  so the configuration is a sample: the ability keys are those of the monster data that
  monster.js builds (STR, DEX, CON, INT, WIS, CHA), and the numeric constants are chosen so
  that the base hit chance is 100 and the base evasion rate is 0. Every general theorem below
  holds for an arbitrary configuration.
\<close>

definition test_config :: config where
  "test_config =
     \<lparr> StatType = [(''STRENGTH'', ''STR''), (''DEXTERITY'', ''DEX''), (''CONSTITUTION'', ''CON''),
                   (''INTELLIGENCE'', ''INT''), (''WISDOM'', ''WIS''), (''CHARISMA'', ''CHA'')],
       BASE_HIT_CHANCE = 100,
       BASE_EVASION_RATE = 0,
       BASE_CRITICAL_CHANCE = 50,
       CRITICAL_MULTIPLIER = 2,
       DEFAULT_PLAYER_STATS = [],
       DEFAULT_PLAYER_BASE_HP = 20 \<rparr>"

definition test_monster_data :: "rat \<Rightarrow> (string \<times> rat) list \<Rightarrow> MonsterData" where
  "test_monster_data hp stats =
     \<lparr> md_name = Some ''Goblin'', md_description = None, md_hp = Some hp, md_base_exp = None,
       md_drop_chance = None, md_stats = Some (map_of stats), md_special_abilities = None \<rparr>"

definition test_monster :: "rat \<Rightarrow> rat \<Rightarrow> (string \<times> rat) list \<Rightarrow> Monster" where
  "test_monster mx pos stats =
     \<lparr> m_name = ''Goblin'', m_description = ''An ordinary monster.'', m_baseExp = 10,
       m_dropChance = 1 / 2, m_specialAbilities = [],
       m_stats = Stats_new test_config (map_of stats),
       m_hpBar = \<lparr> bar_max = Some mx, bar_position = Some pos \<rparr> \<rparr>"

definition test_player :: "(string \<times> rat) list \<Rightarrow> Weapon option \<Rightarrow> Player" where
  "test_player stats weapon =
     \<lparr> p_name = ''Arwen'', p_gold = 0, p_level = Level_new None None,
       p_stats = Stats_new test_config (map_of stats),
       p_hpBar = \<lparr> bar_max = Some 25, bar_position = Some 25 \<rparr>,
       p_mpBar = \<lparr> bar_max = Some 12, bar_position = Some 12 \<rparr>,
       p_inventory = [], p_equippedWeapon = weapon \<rparr>"

definition test_weapon :: "string option \<Rightarrow> Weapon" where
  "test_weapon dmg = \<lparr> w_name = ''Blade'', w_type = ''Weapon'', w_damage = dmg, w_effect = ''None'' \<rparr>"

definition test_player_args :: "(string \<times> rat) list \<Rightarrow> PlayerArgs" where
  "test_player_args stats =
     \<lparr> a_name = Some ''Arwen'', a_stats = Some (map_of stats), a_hp = None, a_mp = None,
       a_exp = None, a_level = None, a_gold = None, a_inventory = None,
       a_equippedWeapon = None \<rparr>"

section \<open>The bar\<close>

lemma Bar_new_inv: "Bar_new (Some mx) ip = Inr b \<Longrightarrow> ip \<noteq> Some None \<Longrightarrow> Bar_inv b"
  by (auto simp: Bar_new_def Bar_inv_def js_le_def js_min_def js_max_def
      split: if_splits option.splits)

lemma Bar_set_value_inv: "Bar_inv b \<Longrightarrow> Bar_inv (Bar_set_value b (Some v))"
  by (auto simp: Bar_set_value_def Bar_inv_def js_min_def js_max_def split: option.splits)

lemma Bar_set_max_inv: "Bar_set_max b (Some m) = Inr b' \<Longrightarrow> Bar_inv b \<Longrightarrow> Bar_inv b'"
  by (auto simp: Bar_set_max_def Bar_inv_def js_le_def js_gt_def Let_def
      split: if_splits option.splits)

lemma Bar_set_value_clamp:
  "Bar_inv b \<Longrightarrow> bar_max b = Some M \<Longrightarrow>
   bar_position (Bar_set_value b (Some v)) =
     Some (if v < 0 then 0 else if M < v then M else v)"
  by (auto simp: Bar_set_value_def Bar_inv_def js_min_def js_max_def min_def max_def
      split: option.splits)

lemma Bar_set_max_result:
  "Bar_set_max b (Some m) = Inr b' \<Longrightarrow> bar_position b = Some p \<Longrightarrow>
   0 < m \<and> bar_max b' = Some m \<and> bar_position b' = Some (if m < p then m else p)"
  by (auto simp: Bar_set_max_def js_le_def js_gt_def Let_def split: if_splits)

text \<open>
  Claim C7. The claim is that a bar always has \<open>0 \<le> position \<le> maximum\<close> and
  \<open>0 < maximum\<close>, that the position setter clamps what it is given into \<open>[0, maximum]\<close>, and
  that the constructor and the maximum setter throw on a maximum that is not positive.
  The code does not keep this when it is given \<open>NaN\<close>, because \<open>NaN <= 0\<close> is false and
  \<open>Math.min\<close> and \<open>Math.max\<close> return \<open>NaN\<close> on it:

  \<^item> \<open>new Bar(NaN)\<close> does not throw and returns a bar whose maximum and position are \<open>NaN\<close>;
  \<^item> \<open>new Bar(10, NaN)\<close> returns a bar whose position is \<open>NaN\<close>;
  \<^item> on the bar with maximum 10 and position 3, which satisfies the invariant,
    \<open>bar.value = NaN\<close> stores \<open>NaN\<close> as the position instead of a value in \<open>[0, 10]\<close>;
  \<^item> on the same bar \<open>bar.max = NaN\<close> does not throw and stores \<open>NaN\<close> as the maximum;
  \<^item> the program itself gets there: a player whose equipped weapon has the damage
    \<open>'sword'\<close> has the attack power \<open>NaN\<close> (\<open>'sword'.split('d')[1]\<close> is the empty string),
    so the player's hit calls \<open>takeDamage(NaN)\<close> on a monster with 30 of 30 hp and leaves the
    position of its bar at \<open>NaN\<close>; the bar is then neither empty nor full, and a later
    \<open>takeDamage(1000)\<close> returns false and leaves the position at \<open>NaN\<close>.
\<close>

theorem Bar_NaN_breaks_invariant:
  "Bar_new None None = Inr \<lparr> bar_max = None, bar_position = None \<rparr>
   \<and> \<not> Bar_inv \<lparr> bar_max = None, bar_position = None \<rparr>
   \<and> Bar_new (Some 10) (Some None) = Inr \<lparr> bar_max = Some 10, bar_position = None \<rparr>
   \<and> \<not> Bar_inv \<lparr> bar_max = Some 10, bar_position = None \<rparr>
   \<and> Bar_inv \<lparr> bar_max = Some 10, bar_position = Some 3 \<rparr>
   \<and> Bar_set_value \<lparr> bar_max = Some 10, bar_position = Some 3 \<rparr> None =
       \<lparr> bar_max = Some 10, bar_position = None \<rparr>
   \<and> Bar_set_max \<lparr> bar_max = Some 10, bar_position = Some 3 \<rparr> None =
       Inr \<lparr> bar_max = None, bar_position = Some 3 \<rparr>
   \<and> \<not> Bar_inv \<lparr> bar_max = None, bar_position = Some 3 \<rparr>
   \<and> Player_attackPower test_config
         (test_player [] (Some (test_weapon (Some ''sword'')))) = Inr None
   \<and> player_turn test_config (test_player [] (Some (test_weapon (Some ''sword''))))
         (test_monster 30 30 []) 0 (9 / 10) =
       Inr (LandedNaN,
            (test_monster 30 30 [])\<lparr> m_hpBar := \<lparr> bar_max = Some 30, bar_position = None \<rparr> \<rparr>)
   \<and> \<not> Bar_isEmpty \<lparr> bar_max = Some 30, bar_position = None \<rparr>
   \<and> \<not> Bar_isFull \<lparr> bar_max = Some 30, bar_position = None \<rparr>
   \<and> Monster_takeDamage
         ((test_monster 30 30 [])\<lparr> m_hpBar := \<lparr> bar_max = Some 30, bar_position = None \<rparr> \<rparr>)
         (Some 1000) =
       (False,
        (test_monster 30 30 [])\<lparr> m_hpBar := \<lparr> bar_max = Some 30, bar_position = None \<rparr> \<rparr>)"
proof -
  let ?cfg = "test_config"
  let ?p = "test_player [] (Some (test_weapon (Some ''sword'')))"
  let ?m = "test_monster 30 30 []"
  have bars:
    "Bar_new None None = Inr \<lparr> bar_max = None, bar_position = None \<rparr>"
    "\<not> Bar_inv \<lparr> bar_max = None, bar_position = None \<rparr>"
    "Bar_new (Some 10) (Some None) = Inr \<lparr> bar_max = Some 10, bar_position = None \<rparr>"
    "\<not> Bar_inv \<lparr> bar_max = Some 10, bar_position = None \<rparr>"
    "Bar_inv \<lparr> bar_max = Some 10, bar_position = Some 3 \<rparr>"
    "Bar_set_value \<lparr> bar_max = Some 10, bar_position = Some 3 \<rparr> None =
       \<lparr> bar_max = Some 10, bar_position = None \<rparr>"
    "Bar_set_max \<lparr> bar_max = Some 10, bar_position = Some 3 \<rparr> None =
       Inr \<lparr> bar_max = None, bar_position = Some 3 \<rparr>"
    "\<not> Bar_inv \<lparr> bar_max = None, bar_position = Some 3 \<rparr>"
    "\<not> Bar_isEmpty \<lparr> bar_max = Some 30, bar_position = None \<rparr>"
    "\<not> Bar_isFull \<lparr> bar_max = Some 30, bar_position = None \<rparr>"
    by (simp_all add: Bar_new_def Bar_set_value_def Bar_set_max_def Bar_inv_def Bar_isEmpty_def
        Bar_isFull_def js_le_def js_gt_def js_ge_def js_min_def js_max_def Let_def)
  have split: "split_on (CHR ''d'') ''sword'' = [''swor'', '''']"
    by simp
  have ap: "Player_attackPower ?cfg ?p = Inr None"
    by (simp add: Player_attackPower_def Stats_getBonus_def Stats_get_def Stats_new_def
        test_config_def Object_values_def StatType_prop_def array_includes_def
        test_player_def test_weapon_def nth_opt_def parseInt_def js_add_def js_div_def
        calculateStatBonus_def Let_def)
  have hc: "Player_hitChance ?cfg ?p = Inr (Some 100)"
    and cc: "Player_criticalChance ?cfg ?p = Inr (Some 50)"
    by (simp_all add: Player_hitChance_def Player_criticalChance_def Stats_getBonus_def
        Stats_get_def Stats_new_def test_config_def Object_values_def StatType_prop_def
        array_includes_def truthy_def test_player_def calculateStatBonus_def js_add_def
        js_mul_def)
  have df: "Monster_defense ?cfg ?m = Inr 5"
    by (simp add: Monster_defense_def Stats_get_def Stats_new_def test_config_def
        Object_values_def StatType_prop_def array_includes_def test_monster_def js_or_def)
  have dmg: "snd (Monster_takeDamage ?m None) =
       ?m\<lparr> m_hpBar := \<lparr> bar_max = Some 30, bar_position = None \<rparr> \<rparr>"
    by (simp add: Monster_takeDamage_def Bar_set_value_def js_sub_def js_min_def js_max_def
        Let_def test_monster_def)
  have turn: "player_turn ?cfg ?p ?m 0 (9 / 10) =
       Inr (LandedNaN, ?m\<lparr> m_hpBar := \<lparr> bar_max = Some 30, bar_position = None \<rparr> \<rparr>)"
    by (simp add: player_turn_def ap hc cc df dmg landed_def odds_def js_div_def Let_def)
  have again: "Monster_takeDamage
         (?m\<lparr> m_hpBar := \<lparr> bar_max = Some 30, bar_position = None \<rparr> \<rparr>) (Some 1000) =
       (False, ?m\<lparr> m_hpBar := \<lparr> bar_max = Some 30, bar_position = None \<rparr> \<rparr>)"
    by (simp add: Monster_takeDamage_def Bar_set_value_def Bar_isEmpty_def js_sub_def js_le_def
        js_min_def js_max_def Let_def test_monster_def)
  from bars ap turn again show ?thesis by simp
qed

text \<open>
  On finite numbers the bar behaves as claimed. A bar satisfies \<open>0 \<le> position \<le> maximum\<close>
  and \<open>0 < maximum\<close> when the constructor returns it, and both setters keep it so.
  Assigning \<open>position + delta\<close> for any \<open>delta\<close> stores the value clamped into
  \<open>[0, maximum]\<close> and leaves the maximum alone. Assigning a maximum that the setter accepts
  stores it, and moves the position down to it exactly when the position was above it. The
  constructor and the maximum setter throw exactly on a maximum that is not positive.
\<close>

lemma Bar_invariant_finite:
  "(Bar_new (Some mx) None = Inr b0 \<longrightarrow> Bar_inv b0)
   \<and> (Bar_new (Some mx) (Some (Some ip)) = Inr b0' \<longrightarrow> Bar_inv b0')
   \<and> ((\<exists>b1. Bar_new (Some mx) ip' = Inr b1) \<longleftrightarrow> 0 < mx)
   \<and> (Bar_inv b \<longrightarrow> bar_position b = Some p \<longrightarrow> bar_max b = Some M \<longrightarrow>
        Bar_inv (Bar_set_value b (js_add (bar_position b) (Some delta)))
        \<and> Bar_set_value b (js_add (bar_position b) (Some delta)) =
            b\<lparr> bar_position :=
                 Some (if p + delta < 0 then 0 else if M < p + delta then M else p + delta) \<rparr>)
   \<and> (Bar_inv b \<longrightarrow> bar_position b = Some p \<longrightarrow> Bar_set_max b (Some m) = Inr b' \<longrightarrow>
        Bar_inv b' \<and> bar_max b' = Some m
        \<and> bar_position b' = Some (if m < p then m else p))
   \<and> ((\<exists>b2. Bar_set_max b (Some m) = Inr b2) \<longleftrightarrow> 0 < m)"
proof -
  have c1: "Bar_new (Some mx) None = Inr b0 \<longrightarrow> Bar_inv b0"
    using Bar_new_inv [of mx None b0] by simp
  have c1': "Bar_new (Some mx) (Some (Some ip)) = Inr b0' \<longrightarrow> Bar_inv b0'"
    using Bar_new_inv [of mx "Some (Some ip)" b0'] by simp
  have c2: "(\<exists>b1. Bar_new (Some mx) ip' = Inr b1) \<longleftrightarrow> 0 < mx"
    by (auto simp: Bar_new_def js_le_def)
  have c3: "Bar_inv b \<longrightarrow> bar_position b = Some p \<longrightarrow> bar_max b = Some M \<longrightarrow>
        Bar_inv (Bar_set_value b (js_add (bar_position b) (Some delta)))
        \<and> Bar_set_value b (js_add (bar_position b) (Some delta)) =
            b\<lparr> bar_position :=
                 Some (if p + delta < 0 then 0 else if M < p + delta then M else p + delta) \<rparr>"
  proof (intro impI)
    assume inv: "Bar_inv b" and p: "bar_position b = Some p" and M: "bar_max b = Some M"
    have pos: "bar_position (Bar_set_value b (Some (p + delta))) =
        Some (if p + delta < 0 then 0 else if M < p + delta then M else p + delta)"
      using inv M by (rule Bar_set_value_clamp)
    have eq: "Bar_set_value b (Some (p + delta)) =
        b\<lparr> bar_position :=
             Some (if p + delta < 0 then 0 else if M < p + delta then M else p + delta) \<rparr>"
      using pos by (simp add: Bar_set_value_def)
    have add: "js_add (bar_position b) (Some delta) = Some (p + delta)"
      by (simp add: p js_add_def)
    show "Bar_inv (Bar_set_value b (js_add (bar_position b) (Some delta)))
        \<and> Bar_set_value b (js_add (bar_position b) (Some delta)) =
            b\<lparr> bar_position :=
                 Some (if p + delta < 0 then 0 else if M < p + delta then M else p + delta) \<rparr>"
      unfolding add using Bar_set_value_inv [OF inv, of "p + delta"] eq by blast
  qed
  have c4: "Bar_inv b \<longrightarrow> bar_position b = Some p \<longrightarrow> Bar_set_max b (Some m) = Inr b' \<longrightarrow>
        Bar_inv b' \<and> bar_max b' = Some m
        \<and> bar_position b' = Some (if m < p then m else p)"
    using Bar_set_max_inv [of b m b'] Bar_set_max_result [of b m b' p] by blast
  have c5: "(\<exists>b2. Bar_set_max b (Some m) = Inr b2) \<longleftrightarrow> 0 < m"
    by (auto simp: Bar_set_max_def js_le_def Let_def)
  from c1 c1' c2 c3 c4 c5 show ?thesis by blast
qed

lemma Bar_invariant_finite_example:
  "Bar_new (Some 10) (Some (Some 3)) = Inr \<lparr> bar_max = Some 10, bar_position = Some 3 \<rparr>
   \<and> Bar_inv \<lparr> bar_max = Some 10, bar_position = Some 3 \<rparr>
   \<and> Bar_set_value \<lparr> bar_max = Some 10, bar_position = Some 3 \<rparr> (js_add (Some 3) (Some (- 5))) =
       \<lparr> bar_max = Some 10, bar_position = Some 0 \<rparr>
   \<and> Bar_set_value \<lparr> bar_max = Some 10, bar_position = Some 3 \<rparr> (js_add (Some 3) (Some 25)) =
       \<lparr> bar_max = Some 10, bar_position = Some 10 \<rparr>
   \<and> Bar_set_max \<lparr> bar_max = Some 10, bar_position = Some 3 \<rparr> (Some 2) =
       Inr \<lparr> bar_max = Some 2, bar_position = Some 2 \<rparr>
   \<and> Bar_inv \<lparr> bar_max = Some 2, bar_position = Some 2 \<rparr>"
  by (simp add: Bar_new_def Bar_set_value_def Bar_set_max_def Bar_inv_def js_add_def js_le_def
      js_gt_def js_min_def js_max_def Let_def)

section \<open>Experience and levels\<close>

lemma threshold_at_150: "threshold_at lv = of_int \<lfloor>150 * lv\<rfloor>"
  by (simp add: threshold_at_def algebra_simps)

lemma calculateExpToNextLevel_threshold:
  "calculateExpToNextLevel l = threshold_at (level_value l)"
  by (simp add: calculateExpToNextLevel_def threshold_at_def BASE_EXP_TO_NEXT_LEVEL_def
      EXP_MULTIPLIER_PER_LEVEL_def algebra_simps)

lemma threshold_at_succ: "threshold_at (lv + 1) = threshold_at lv + 150"
proof -
  have "\<lfloor>150 * lv + 150\<rfloor> = \<lfloor>150 * lv\<rfloor> + 150"
    using floor_add_int [of "150 * lv" 150] by simp
  then show ?thesis by (simp add: threshold_at_150 algebra_simps)
qed

lemma threshold_at_ge: "1 \<le> lv \<Longrightarrow> 150 \<le> threshold_at lv"
proof -
  assume "1 \<le> lv"
  then have "(150::rat) \<le> 150 * lv" by simp
  then have "150 \<le> \<lfloor>150 * lv\<rfloor>" by (simp add: le_floor_iff)
  then show ?thesis by (simp add: threshold_at_150)
qed

lemma levelUp_simps:
  "level_value (levelUp l) = level_value l + 1"
  "level_exp (levelUp l) = level_exp l - expToNextLevel l"
  "expToNextLevel (levelUp l) = threshold_at (level_value l + 1)"
  by (simp_all add: levelUp_def Let_def calculateExpToNextLevel_threshold)

lemma levelUp_record:
  "levelUp l = \<lparr> level_value = level_value l + 1, level_exp = level_exp l - expToNextLevel l,
                 expToNextLevel = threshold_at (level_value l + 1) \<rparr>"
  by (simp add: levelUp_def Let_def calculateExpToNextLevel_threshold)

lemma thr_seq_levelUp: "thr_seq (levelUp l) i = thr_seq l (Suc i)"
  by (cases i) (simp_all add: levelUp_simps algebra_simps)

lemma levelUp_loop_stop:
  "level_exp l < expToNextLevel l \<Longrightarrow> levelUp_loop l f = (f, l)"
  by (simp add: levelUp_loop.simps [of l f])

lemma levelUp_loop_step:
  "expToNextLevel l \<le> level_exp l \<Longrightarrow> levelUp_loop l f = levelUp_loop (levelUp l) True"
  by (simp add: levelUp_loop.simps [of l f])

lemma levelUp_loop_exit:
  "levelUp_loop l f = (f', l') \<Longrightarrow> level_exp l' < expToNextLevel l'"
proof (induction l f rule: levelUp_loop.induct)
  case (1 l leveledUp)
  then show ?case
    by (simp add: levelUp_loop.simps [of l leveledUp] split: if_splits)
qed

lemma levelUp_loop_char:
  "levelUp_loop l f = (f', l') \<Longrightarrow>
   \<exists>n. level_value l' = level_value l + of_nat n
     \<and> level_exp l' = level_exp l - (\<Sum>i<n. thr_seq l i)
     \<and> expToNextLevel l' = thr_seq l n
     \<and> f' = (f \<or> 0 < n)
     \<and> (\<forall>k<n. thr_seq l k \<le> level_exp l - (\<Sum>i<k. thr_seq l i))"
proof (induction l f rule: levelUp_loop.induct)
  case (1 l leveledUp)
  show ?case
  proof (cases "expToNextLevel l \<le> level_exp l")
    case False
    with "1.prems" have "f' = leveledUp" "l' = l"
      by (simp_all add: levelUp_loop.simps [of l leveledUp])
    then show ?thesis by (intro exI [of _ 0]) simp
  next
    case True
    with "1.prems" have "levelUp_loop (levelUp l) True = (f', l')"
      by (simp add: levelUp_loop.simps [of l leveledUp])
    from "1.IH" [OF True this] obtain n where n:
      "level_value l' = level_value (levelUp l) + of_nat n"
      "level_exp l' = level_exp (levelUp l) - (\<Sum>i<n. thr_seq (levelUp l) i)"
      "expToNextLevel l' = thr_seq (levelUp l) n"
      "f' = (True \<or> 0 < n)"
      "\<forall>k<n. thr_seq (levelUp l) k \<le> level_exp (levelUp l) - (\<Sum>i<k. thr_seq (levelUp l) i)"
      by blast
    have sum_shift: "(\<Sum>i<Suc k. thr_seq l i) = expToNextLevel l + (\<Sum>i<k. thr_seq l (Suc i))" for k
      by (simp add: sum.lessThan_Suc_shift del: sum.lessThan_Suc thr_seq.simps(2))
    have "\<forall>k<Suc n. thr_seq l k \<le> level_exp l - (\<Sum>i<k. thr_seq l i)"
    proof (intro allI impI)
      fix k assume "k < Suc n"
      show "thr_seq l k \<le> level_exp l - (\<Sum>i<k. thr_seq l i)"
      proof (cases k)
        case 0
        with True show ?thesis by simp
      next
        case (Suc j)
        with \<open>k < Suc n\<close> have "j < n" by simp
        with n(5) have "thr_seq (levelUp l) j \<le> level_exp (levelUp l) - (\<Sum>i<j. thr_seq (levelUp l) i)"
          by blast
        then show ?thesis unfolding Suc sum_shift
          by (simp add: thr_seq_levelUp levelUp_simps del: thr_seq.simps(2))
      qed
    qed
    moreover have "level_value l' = level_value l + of_nat (Suc n)"
      using n(1) by (simp add: levelUp_simps)
    moreover have "level_exp l' = level_exp l - (\<Sum>i<Suc n. thr_seq l i)"
      using n(2) unfolding sum_shift by (simp add: thr_seq_levelUp levelUp_simps del: thr_seq.simps(2))
    moreover have "expToNextLevel l' = thr_seq l (Suc n)"
      using n(3) by (simp add: thr_seq_levelUp del: thr_seq.simps(2))
    moreover have "f' = (leveledUp \<or> 0 < Suc n)" using n(4) by simp
    ultimately show ?thesis by blast
  qed
qed

lemma levelUp_loop_stored:
  "levelUp_loop l f = (f', l') \<Longrightarrow>
   expToNextLevel l = calculateExpToNextLevel l \<Longrightarrow>
   expToNextLevel l' = calculateExpToNextLevel l'"
proof (induction l f rule: levelUp_loop.induct)
  case (1 l leveledUp)
  show ?case
  proof (cases "expToNextLevel l \<le> level_exp l")
    case False
    with "1.prems" show ?thesis by (auto simp: levelUp_loop_stop)
  next
    case True
    have "expToNextLevel (levelUp l) = calculateExpToNextLevel (levelUp l)"
      by (simp add: levelUp_simps calculateExpToNextLevel_threshold)
    with "1.IH" [OF True] "1.prems"(1) True show ?thesis
      by (simp add: levelUp_loop_step)
  qed
qed

lemma gainExp_char:
  "\<exists>n. gainExp l amount =
         (0 < n, \<lparr> level_value = level_value l + of_nat n,
                    level_exp = level_exp l + amount - (\<Sum>i<n. thr_seq l i),
                    expToNextLevel = thr_seq l n \<rparr>)
     \<and> (\<forall>k<n. thr_seq l k \<le> level_exp l + amount - (\<Sum>i<k. thr_seq l i))
     \<and> level_exp l + amount - (\<Sum>i<n. thr_seq l i) < thr_seq l n"
proof -
  let ?l0 = "l\<lparr> level_exp := level_exp l + amount \<rparr>"
  obtain f' l' where res: "levelUp_loop ?l0 False = (f', l')"
    by (cases "levelUp_loop ?l0 False") blast
  have seq: "thr_seq ?l0 = thr_seq l"
  proof
    fix i show "thr_seq ?l0 i = thr_seq l i" by (cases i) simp_all
  qed
  from levelUp_loop_char [OF res] obtain n where n:
    "level_value l' = level_value l + of_nat n"
    "level_exp l' = level_exp l + amount - (\<Sum>i<n. thr_seq l i)"
    "expToNextLevel l' = thr_seq l n"
    "f' = (0 < n)"
    "\<forall>k<n. thr_seq l k \<le> level_exp l + amount - (\<Sum>i<k. thr_seq l i)"
    unfolding seq by auto
  have "level_exp l' < expToNextLevel l'" using levelUp_loop_exit [OF res] .
  moreover have "l' = \<lparr> level_value = level_value l + of_nat n,
                    level_exp = level_exp l + amount - (\<Sum>i<n. thr_seq l i),
                    expToNextLevel = thr_seq l n \<rparr>"
    using n(1,2,3) by simp
  ultimately show ?thesis
    using n(4,5) res unfolding gainExp_def checkAndProcessLevelUp_def
    by (intro exI [of _ n]) (simp add: n(2,3))
qed

lemma gainExp_one_level:
  assumes con: "expToNextLevel l = calculateExpToNextLevel l"
    and e0: "level_exp l = 0" and r: "0 \<le> r" "r < expToNextLevel l + 150"
  shows "gainExp l (expToNextLevel l + r) =
           (True, \<lparr> level_value = level_value l + 1, level_exp = r,
                     expToNextLevel = expToNextLevel l + 150 \<rparr>)"
proof -
  let ?l0 = "l\<lparr> level_exp := level_exp l + (expToNextLevel l + r) \<rparr>"
  have t: "expToNextLevel l = threshold_at (level_value l)"
    using con by (simp add: calculateExpToNextLevel_threshold)
  have l1: "levelUp ?l0 = \<lparr> level_value = level_value l + 1, level_exp = r,
                     expToNextLevel = expToNextLevel l + 150 \<rparr>"
    using e0 by (simp add: levelUp_record t threshold_at_succ)
  have s1: "expToNextLevel ?l0 \<le> level_exp ?l0" using r e0 by simp
  have s2: "level_exp (levelUp ?l0) < expToNextLevel (levelUp ?l0)"
    unfolding l1 using r by simp
  have "levelUp_loop ?l0 False = levelUp_loop (levelUp ?l0) True"
    using s1 by (rule levelUp_loop_step)
  also have "\<dots> = (True, levelUp ?l0)"
    using s2 by (rule levelUp_loop_stop)
  finally show ?thesis unfolding gainExp_def checkAndProcessLevelUp_def l1 .
qed

lemma gainExp_two_levels:
  assumes lv: "1 \<le> level_value l" and con: "expToNextLevel l = calculateExpToNextLevel l"
    and e0: "level_exp l = 0" and r: "0 \<le> r" "r < expToNextLevel l + 300"
  shows "gainExp l (expToNextLevel l + (expToNextLevel l + 150) + r) =
           (True, \<lparr> level_value = level_value l + 2, level_exp = r,
                     expToNextLevel = expToNextLevel l + 300 \<rparr>)"
proof -
  let ?l0 = "l\<lparr> level_exp := level_exp l + (expToNextLevel l + (expToNextLevel l + 150) + r) \<rparr>"
  have t: "expToNextLevel l = threshold_at (level_value l)"
    using con by (simp add: calculateExpToNextLevel_threshold)
  have t0: "150 \<le> expToNextLevel l"
    unfolding t using lv by (rule threshold_at_ge)
  have l1: "levelUp ?l0 = \<lparr> level_value = level_value l + 1,
                     level_exp = expToNextLevel l + 150 + r,
                     expToNextLevel = expToNextLevel l + 150 \<rparr>"
    using e0 by (simp add: levelUp_record t threshold_at_succ)
  have l2: "levelUp (levelUp ?l0) = \<lparr> level_value = level_value l + 2, level_exp = r,
                     expToNextLevel = expToNextLevel l + 300 \<rparr>"
    using threshold_at_succ [of "level_value l + 1"] e0
    by (simp add: l1 levelUp_record t threshold_at_succ add.assoc)
  have s1: "expToNextLevel ?l0 \<le> level_exp ?l0" using r e0 t0 by simp
  have s2: "expToNextLevel (levelUp ?l0) \<le> level_exp (levelUp ?l0)"
    unfolding l1 using r by simp
  have s3: "level_exp (levelUp (levelUp ?l0)) < expToNextLevel (levelUp (levelUp ?l0))"
    unfolding l2 using r by simp
  have "levelUp_loop ?l0 False = levelUp_loop (levelUp ?l0) True"
    using s1 by (rule levelUp_loop_step)
  also have "\<dots> = levelUp_loop (levelUp (levelUp ?l0)) True"
    using s2 by (rule levelUp_loop_step)
  also have "\<dots> = (True, levelUp (levelUp ?l0))"
    using s3 by (rule levelUp_loop_stop)
  finally show ?thesis unfolding gainExp_def checkAndProcessLevelUp_def l2 .
qed

lemma Level_new_default:
  "Level_new None None = \<lparr> level_value = 1, level_exp = 0, expToNextLevel = 150 \<rparr>"
  by (simp add: Level_new_def Let_def calculateExpToNextLevel_def BASE_EXP_TO_NEXT_LEVEL_def
      EXP_MULTIPLIER_PER_LEVEL_def)

text \<open>
  Claim C5, as amended. \<open>gainExp\<close> adds the amount to the accumulated experience and then
  levels up some number \<open>n\<close> of times: the level rises by \<open>n\<close>; the experience falls by the
  thresholds met, which are the stored threshold and then \<open>floor(100 * level * 1.5)\<close> of each
  level reached; every one of the \<open>n\<close> level-ups found the experience at or above its
  threshold; the loop stops strictly below the threshold then stored; and the call returns
  true exactly when \<open>n > 0\<close>. This holds for every state and every amount.

  From a state at level at least 1 with no accumulated experience, whose stored threshold
  \<open>t\<close> is the computed one: gaining exactly \<open>t\<close> gives exactly one level-up and leaves 0;
  gaining \<open>2 * t + 1\<close> gives exactly one level-up and leaves \<open>t + 1\<close>, because the next
  threshold is \<open>t + 150\<close>; gaining \<open>t + (t + 150) + r\<close> with \<open>0 \<le> r < t + 300\<close> gives exactly
  two level-ups and leaves \<open>r\<close>.
\<close>

theorem gainExp_level_ups:
  "(\<exists>n. gainExp l amount =
          (0 < n, \<lparr> level_value = level_value l + of_nat n,
                     level_exp = level_exp l + amount - (\<Sum>i<n. thr_seq l i),
                     expToNextLevel = thr_seq l n \<rparr>)
      \<and> (\<forall>k<n. thr_seq l k \<le> level_exp l + amount - (\<Sum>i<k. thr_seq l i))
      \<and> level_exp l + amount - (\<Sum>i<n. thr_seq l i) < thr_seq l n)
   \<and> (1 \<le> level_value l \<and> expToNextLevel l = calculateExpToNextLevel l \<and> level_exp l = 0 \<longrightarrow>
        expToNextLevel l = threshold_at (level_value l)
        \<and> gainExp l (expToNextLevel l) =
            (True, \<lparr> level_value = level_value l + 1, level_exp = 0,
                      expToNextLevel = expToNextLevel l + 150 \<rparr>)
        \<and> gainExp l (2 * expToNextLevel l + 1) =
            (True, \<lparr> level_value = level_value l + 1, level_exp = expToNextLevel l + 1,
                      expToNextLevel = expToNextLevel l + 150 \<rparr>)
        \<and> (0 \<le> r \<and> r < expToNextLevel l + 300 \<longrightarrow>
             gainExp l (expToNextLevel l + (expToNextLevel l + 150) + r) =
               (True, \<lparr> level_value = level_value l + 2, level_exp = r,
                         expToNextLevel = expToNextLevel l + 300 \<rparr>)))"
proof (intro conjI impI)
  show "\<exists>n. gainExp l amount =
          (0 < n, \<lparr> level_value = level_value l + of_nat n,
                     level_exp = level_exp l + amount - (\<Sum>i<n. thr_seq l i),
                     expToNextLevel = thr_seq l n \<rparr>)
      \<and> (\<forall>k<n. thr_seq l k \<le> level_exp l + amount - (\<Sum>i<k. thr_seq l i))
      \<and> level_exp l + amount - (\<Sum>i<n. thr_seq l i) < thr_seq l n"
    by (rule gainExp_char)
next
  assume h: "1 \<le> level_value l \<and> expToNextLevel l = calculateExpToNextLevel l \<and> level_exp l = 0"
  then have t: "expToNextLevel l = threshold_at (level_value l)"
    by (simp add: calculateExpToNextLevel_threshold)
  then show "expToNextLevel l = threshold_at (level_value l)" .
  have t0: "150 \<le> expToNextLevel l"
    unfolding t using h by (intro threshold_at_ge) simp
  show "gainExp l (expToNextLevel l) =
            (True, \<lparr> level_value = level_value l + 1, level_exp = 0,
                      expToNextLevel = expToNextLevel l + 150 \<rparr>)"
    using gainExp_one_level [of l 0] h t0 by simp
  have "gainExp l (expToNextLevel l + (expToNextLevel l + 1)) =
            (True, \<lparr> level_value = level_value l + 1, level_exp = expToNextLevel l + 1,
                      expToNextLevel = expToNextLevel l + 150 \<rparr>)"
    using h t0 by (intro gainExp_one_level) simp_all
  then show "gainExp l (2 * expToNextLevel l + 1) =
            (True, \<lparr> level_value = level_value l + 1, level_exp = expToNextLevel l + 1,
                      expToNextLevel = expToNextLevel l + 150 \<rparr>)"
    by (simp add: algebra_simps)
next
  assume h: "1 \<le> level_value l \<and> expToNextLevel l = calculateExpToNextLevel l \<and> level_exp l = 0"
    and r: "0 \<le> r \<and> r < expToNextLevel l + 300"
  then show "gainExp l (expToNextLevel l + (expToNextLevel l + 150) + r) =
               (True, \<lparr> level_value = level_value l + 2, level_exp = r,
                         expToNextLevel = expToNextLevel l + 300 \<rparr>)"
    by (intro gainExp_two_levels) simp_all
qed

text \<open>
  A new track (level 1, threshold 150): 150 gives level 2 with nothing left, 301 gives level 2
  with 151 left, 451 gives level 3 with 1 left.
\<close>

theorem gainExp_level_ups_witness:
  "gainExp (Level_new None None) 150 =
     (True, \<lparr> level_value = 2, level_exp = 0, expToNextLevel = 300 \<rparr>)
   \<and> gainExp (Level_new None None) 301 =
     (True, \<lparr> level_value = 2, level_exp = 151, expToNextLevel = 300 \<rparr>)
   \<and> gainExp (Level_new None None) 451 =
     (True, \<lparr> level_value = 3, level_exp = 1, expToNextLevel = 450 \<rparr>)"
  using gainExp_level_ups [of "Level_new None None" 0 1]
  by (simp add: Level_new_default calculateExpToNextLevel_def BASE_EXP_TO_NEXT_LEVEL_def
      EXP_MULTIPLIER_PER_LEVEL_def)

text \<open>
  The claim as stated fails: on a new track the threshold is 150, and gaining
  \<open>2 * 150 + 1\<close> in one call raises the level from 1 to 2 only, one level-up and not two.
\<close>

theorem gainExp_twice_threshold_counterexample:
  "expToNextLevel (Level_new None None) = 150
   \<and> gainExp (Level_new None None) (2 * 150 + 1) =
       (True, \<lparr> level_value = 2, level_exp = 151, expToNextLevel = 300 \<rparr>)
   \<and> level_value (Level_new None None) + 1 = 2"
  using gainExp_one_level [of "Level_new None None" 151]
  by (simp add: Level_new_default calculateExpToNextLevel_def BASE_EXP_TO_NEXT_LEVEL_def
      EXP_MULTIPLIER_PER_LEVEL_def)

text \<open>
  Claim C6. From a state with level at least 1 and accumulated experience strictly below
  the stored threshold, \<open>gainExp\<close> with a non-negative amount returns (the loop is a total
  function), and afterwards the accumulated experience is strictly below the stored
  threshold, the level is still at least 1, and the stored threshold is the computed one
  \<open>floor(100 * level * 1.5)\<close> of the level reached whenever it was so before the call.
\<close>

theorem gainExp_below_threshold:
  "1 \<le> level_value l \<Longrightarrow> level_exp l < expToNextLevel l \<Longrightarrow> 0 \<le> amount \<Longrightarrow>
   level_exp (snd (gainExp l amount)) < expToNextLevel (snd (gainExp l amount))
   \<and> 1 \<le> level_value (snd (gainExp l amount))
   \<and> (expToNextLevel l = calculateExpToNextLevel l \<longrightarrow>
        expToNextLevel (snd (gainExp l amount)) = calculateExpToNextLevel (snd (gainExp l amount)))"
proof -
  assume lv: "1 \<le> level_value l"
  let ?l0 = "l\<lparr> level_exp := level_exp l + amount \<rparr>"
  obtain f' l' where res: "levelUp_loop ?l0 False = (f', l')"
    by (cases "levelUp_loop ?l0 False") blast
  then have g: "snd (gainExp l amount) = l'"
    by (simp add: gainExp_def checkAndProcessLevelUp_def)
  have "level_exp l' < expToNextLevel l'" using levelUp_loop_exit [OF res] .
  moreover have "1 \<le> level_value l'"
    using levelUp_loop_char [OF res] lv by auto
  moreover have "expToNextLevel l = calculateExpToNextLevel l \<longrightarrow>
        expToNextLevel l' = calculateExpToNextLevel l'"
    using levelUp_loop_stored [OF res] by (simp add: calculateExpToNextLevel_def)
  ultimately show ?thesis unfolding g by blast
qed

theorem gainExp_below_threshold_witness:
  "(1::rat) \<le> level_value \<lparr> level_value = 1, level_exp = 100, expToNextLevel = 150 \<rparr>
   \<and> level_exp \<lparr> level_value = 1, level_exp = 100, expToNextLevel = 150 \<rparr>
       < expToNextLevel \<lparr> level_value = 1, level_exp = 100, expToNextLevel = 150 \<rparr>
   \<and> gainExp \<lparr> level_value = 1, level_exp = 100, expToNextLevel = 150 \<rparr> 400 =
       (True, \<lparr> level_value = 3, level_exp = 50, expToNextLevel = 450 \<rparr>)
   \<and> level_exp (snd (gainExp \<lparr> level_value = 1, level_exp = 100, expToNextLevel = 150 \<rparr> 400))
       < expToNextLevel (snd (gainExp \<lparr> level_value = 1, level_exp = 100, expToNextLevel = 150 \<rparr> 400))"
  using gainExp_below_threshold [of "\<lparr> level_value = 1, level_exp = 100, expToNextLevel = 150 \<rparr>" 400]
  by (simp add: gainExp_def checkAndProcessLevelUp_def levelUp_loop.simps levelUp_def Let_def
      calculateExpToNextLevel_def BASE_EXP_TO_NEXT_LEVEL_def EXP_MULTIPLIER_PER_LEVEL_def)

section \<open>The stat block\<close>

lemma foldl_upd_lookup:
  "foldl (\<lambda>acc t. acc(t \<mapsto> f t)) m xs k = (if k \<in> set xs then Some (f k) else m k)"
  by (induction xs arbitrary: m) auto

lemma Stats_new_lookup:
  "stat_values (Stats_new cfg vals) k =
     (if k \<in> set (Object_values cfg)
      then Some (Some (case vals k of Some v \<Rightarrow> v | None \<Rightarrow> 10))
      else None)"
  by (simp add: Stats_new_def foldl_upd_lookup)

lemma StatType_prop_Some:
  "map_of (StatType cfg) name = Some k \<Longrightarrow>
   StatType_prop cfg name = Str k \<and> k \<in> set (Object_values cfg)"
  by (auto simp: StatType_prop_def Object_values_def dest!: map_of_SomeD intro!: image_eqI [where x = "(name, k)"])

lemma Stats_get_recognised:
  "k \<in> set (Object_values cfg) \<Longrightarrow>
   Stats_get cfg s (Str k) = Inr (case stat_values s k of None \<Rightarrow> None | Some n \<Rightarrow> n)"
  by (simp add: Stats_get_def array_includes_def)

lemma Stats_set_accepts:
  "k \<in> set (Object_values cfg) \<Longrightarrow> 0 \<le> v \<Longrightarrow>
   Stats_set cfg (Str k) (Num v) s =
     (Inr (), s\<lparr> stat_values := (stat_values s)(k \<mapsto> Some v) \<rparr>)"
  by (simp add: Stats_set_def array_includes_def)

lemma Monster_attackPower_eq:
  "map_of (StatType cfg) ''STRENGTH'' = Some k \<Longrightarrow>
   Monster_attackPower cfg m =
     Inr (case stat_values (m_stats m) k of None \<Rightarrow> 5 | Some None \<Rightarrow> 5
          | Some (Some v) \<Rightarrow> if v = 0 then 5 else max 1 v)"
  using StatType_prop_Some [of cfg "''STRENGTH''" k]
  by (auto simp: Monster_attackPower_def Stats_get_recognised js_or_def split: option.splits)

lemma Monster_defense_eq:
  "map_of (StatType cfg) ''CONSTITUTION'' = Some k \<Longrightarrow>
   Monster_defense cfg m =
     Inr (case stat_values (m_stats m) k of None \<Rightarrow> 1 / 2 | Some None \<Rightarrow> 1 / 2
          | Some (Some c) \<Rightarrow> if c = 0 then 1 / 2 else max 0 (c / 2))"
  using StatType_prop_Some [of cfg "''CONSTITUTION''" k]
  by (auto simp: Monster_defense_def Stats_get_recognised js_or_def split: option.splits)

lemma Monster_new_stats:
  "Monster_new cfg (Some d) = Inr m \<Longrightarrow> md_stats d = Some st \<Longrightarrow>
   m_stats m = Stats_new cfg (st(''HP'' := None))"
  by (auto simp: Monster_new_def Let_def split: option.splits if_splits sum.splits)

text \<open>
  Claim C1, as amended. When \<open>StatType.STRENGTH\<close> is the key \<open>k\<close>, a monster's
  \<open>attackPower\<close> is \<open>max(1, v)\<close> for the raw value \<open>v\<close> stored under \<open>k\<close> (not its bonus),
  and 5 when that value is 0 (or \<open>NaN\<close>, or missing from the stored values). For a
  constructed monster the stored value is the one of the monster data, and 10 when the data
  has no entry for \<open>k\<close>: the stat block fills in its default, so the attack power is then
  10. The getter reads the current stat block: after \<open>stats.set(k, v')\<close> it returns the
  value for \<open>v'\<close>.
\<close>

theorem Monster_attackPower_raw_strength:
  "map_of (StatType cfg) ''STRENGTH'' = Some k \<Longrightarrow>
   Monster_attackPower cfg m =
     Inr (case stat_values (m_stats m) k of None \<Rightarrow> 5 | Some None \<Rightarrow> 5
          | Some (Some v) \<Rightarrow> if v = 0 then 5 else max 1 v)
   \<and> (Monster_new cfg (Some d) = Inr m \<and> md_stats d = Some st \<and> k \<noteq> ''HP'' \<longrightarrow>
        Monster_attackPower cfg m =
          Inr (case st k of None \<Rightarrow> 10 | Some v \<Rightarrow> if v = 0 then 5 else max 1 v))
   \<and> (0 \<le> v' \<longrightarrow>
        Monster_attackPower cfg
          (m\<lparr> m_stats := snd (Stats_set cfg (Str k) (Num v') (m_stats m)) \<rparr>) =
          Inr (if v' = 0 then 5 else max 1 v'))"
proof (intro conjI impI)
  assume k: "map_of (StatType cfg) ''STRENGTH'' = Some k"
  then have rec: "k \<in> set (Object_values cfg)" using StatType_prop_Some by blast
  show "Monster_attackPower cfg m =
     Inr (case stat_values (m_stats m) k of None \<Rightarrow> 5 | Some None \<Rightarrow> 5
          | Some (Some v) \<Rightarrow> if v = 0 then 5 else max 1 v)"
    using k by (rule Monster_attackPower_eq)
  {
    assume "Monster_new cfg (Some d) = Inr m \<and> md_stats d = Some st \<and> k \<noteq> ''HP''"
    then have "stat_values (m_stats m) k = Some (Some (case st k of Some v \<Rightarrow> v | None \<Rightarrow> 10))"
      using rec Monster_new_stats [of cfg d m st] by (simp add: Stats_new_lookup)
    then show "Monster_attackPower cfg m =
          Inr (case st k of None \<Rightarrow> 10 | Some v \<Rightarrow> if v = 0 then 5 else max 1 v)"
      by (simp add: Monster_attackPower_eq [OF k] split: option.splits)
  }
  {
    assume "0 \<le> v'"
    then show "Monster_attackPower cfg
          (m\<lparr> m_stats := snd (Stats_set cfg (Str k) (Num v') (m_stats m)) \<rparr>) =
          Inr (if v' = 0 then 5 else max 1 v')"
      using rec by (simp add: Monster_attackPower_eq [OF k] Stats_set_accepts)
  }
qed

text \<open>
  A monster built from data with STR 14 has attack power 14, and 3 after STR is set to 3.
\<close>

theorem Monster_attackPower_raw_strength_witness:
  "map_of (StatType test_config) ''STRENGTH'' = Some ''STR''
   \<and> Monster_new test_config (Some (test_monster_data 10 [(''STR'', 14)])) =
       Inr (test_monster 10 10 [(''STR'', 14)])
   \<and> Monster_attackPower test_config (test_monster 10 10 [(''STR'', 14)]) = Inr 14
   \<and> Monster_attackPower test_config
        ((test_monster 10 10 [(''STR'', 14)])
           \<lparr> m_stats := snd (Stats_set test_config (Str ''STR'') (Num 3)
                               (m_stats (test_monster 10 10 [(''STR'', 14)]))) \<rparr>) = Inr 3"
  using Monster_attackPower_raw_strength [of test_config "''STR''" "test_monster 10 10 [(''STR'', 14)]"
      "test_monster_data 10 [(''STR'', 14)]" "map_of [(''STR'', 14)]" 3]
  by (simp add: test_config_def test_monster_def test_monster_data_def Monster_new_def
      Bar_new_def js_le_def js_min_def js_max_def str_or_def js_or_def Stats_new_def Object_values_def Let_def)

text \<open>
  The claim as stated fails: with STR 14 the bonus is 2, so the claim gives
  \<open>max(1, 2) = 2\<close>, and the attack power is 14; with no STR in the data the claim gives 5,
  and the attack power is 10.
\<close>

theorem Monster_attackPower_bonus_counterexample:
  "Monster_new test_config (Some (test_monster_data 10 [(''STR'', 14)])) =
       Inr (test_monster 10 10 [(''STR'', 14)])
   \<and> Monster_attackPower test_config (test_monster 10 10 [(''STR'', 14)]) = Inr 14
   \<and> Stats_getBonus test_config (m_stats (test_monster 10 10 [(''STR'', 14)])) (Str ''STR'')
       = Inr (Some 2)
   \<and> max 1 (2 :: rat) \<noteq> 14
   \<and> Monster_new test_config (Some (test_monster_data 10 [])) = Inr (test_monster 10 10 [])
   \<and> Monster_attackPower test_config (test_monster 10 10 []) = Inr 10"
  by (simp add: test_config_def test_monster_def test_monster_data_def Monster_new_def
      Bar_new_def js_le_def js_min_def js_max_def str_or_def js_or_def Stats_new_def Object_values_def Let_def Monster_attackPower_def
      Stats_get_def Stats_getBonus_def calculateStatBonus_def array_includes_def StatType_prop_def)

text \<open>
  Claim C9. The claim is that \<open>Stats.set(statType, value)\<close> throws when \<open>value\<close> is not a
  non-negative number and leaves the stored values unchanged then. The code does not throw
  on \<open>NaN\<close>, which is not a non-negative number: the check is
  \<open>typeof value !== 'number' || value < 0\<close>, \<open>typeof NaN\<close> is \<open>'number'\<close> and \<open>NaN < 0\<close> is
  false. For every recognised key \<open>set(statType, NaN)\<close> returns normally and stores \<open>NaN\<close>
  under the key, whatever was stored there, and \<open>get\<close> then returns \<open>NaN\<close>.
\<close>

theorem Stats_set_accepts_NaN:
  "array_includes (Object_values cfg) statType \<Longrightarrow>
   \<exists>k. statType = Str k
     \<and> Stats_set cfg statType NaN s = (Inr (), s\<lparr> stat_values := (stat_values s)(k \<mapsto> None) \<rparr>)
     \<and> Stats_get cfg (snd (Stats_set cfg statType NaN s)) statType = Inr None"
proof -
  assume inc: "array_includes (Object_values cfg) statType"
  then obtain k where k: "statType = Str k" "k \<in> set (Object_values cfg)"
    by (cases statType) (auto simp: array_includes_def)
  have "Stats_set cfg (Str k) NaN s = (Inr (), s\<lparr> stat_values := (stat_values s)(k \<mapsto> None) \<rparr>)"
    using k(2) by (simp add: Stats_set_def array_includes_def)
  with k show ?thesis by (simp add: Stats_get_recognised)
qed

text \<open>
  \<open>DEX\<close> is recognised and holds the default 10; \<open>set('DEX', NaN)\<close> returns normally, the
  stored 10 is replaced by \<open>NaN\<close>, and \<open>get('DEX')\<close> is \<open>NaN\<close> afterwards.
\<close>

theorem Stats_set_accepts_NaN_witness:
  "array_includes (Object_values test_config) (Str ''DEX'')
   \<and> typeof NaN = TNumber
   \<and> Stats_get test_config (Stats_new test_config Map.empty) (Str ''DEX'') = Inr (Some 10)
   \<and> Stats_set test_config (Str ''DEX'') NaN (Stats_new test_config Map.empty) =
       (Inr (), (Stats_new test_config Map.empty)
                  \<lparr> stat_values :=
                      (stat_values (Stats_new test_config Map.empty))(''DEX'' \<mapsto> None) \<rparr>)
   \<and> Stats_get test_config
        (snd (Stats_set test_config (Str ''DEX'') NaN (Stats_new test_config Map.empty)))
        (Str ''DEX'') = Inr None"
proof -
  let ?s = "Stats_new test_config Map.empty"
  have yes: "array_includes (Object_values test_config) (Str ''DEX'')"
    by (simp add: test_config_def Object_values_def array_includes_def)
  have mem: "''DEX'' \<in> set (Object_values test_config)"
    by (simp add: test_config_def Object_values_def)
  have before: "Stats_get test_config ?s (Str ''DEX'') = Inr (Some 10)"
    using mem by (simp add: Stats_get_recognised Stats_new_lookup)
  from Stats_set_accepts_NaN [OF yes, of ?s] before yes show ?thesis
    by (simp add: Stats_get_recognised [OF mem])
qed

text \<open>
  On every other value \<open>set\<close> behaves as claimed. It throws when \<open>statType\<close> is not one of
  the values of \<open>StatType\<close> (the error names the key), and it throws when \<open>value\<close> is neither
  a non-negative number nor \<open>NaN\<close> (for a recognised key the error names the value); in
  both cases the stat block after the call is the one before it. On a recognised key and a
  non-negative finite number it returns normally, the entry of \<open>statType\<close> is \<open>value\<close> and
  the other entries are as before, and \<open>get\<close> then returns \<open>value\<close>.
\<close>

lemma Stats_set_apart_from_NaN:
  "(\<not> array_includes (Object_values cfg) statType \<longrightarrow>
      Stats_set cfg statType val s = (Inl (InvalidStatType statType), s))
   \<and> (\<not> (\<exists>v. val = Num v \<and> 0 \<le> v) \<and> val \<noteq> NaN \<longrightarrow>
      (\<exists>e. Stats_set cfg statType val s = (Inl e, s)))
   \<and> (array_includes (Object_values cfg) statType \<and> \<not> (\<exists>v. val = Num v \<and> 0 \<le> v)
        \<and> val \<noteq> NaN \<longrightarrow>
      Stats_set cfg statType val s = (Inl (InvalidStatValue val), s))
   \<and> (array_includes (Object_values cfg) statType \<and> val = Num v \<and> 0 \<le> v \<longrightarrow>
      (\<exists>k. statType = Str k
         \<and> Stats_set cfg statType val s =
             (Inr (), s\<lparr> stat_values := (stat_values s)(k \<mapsto> Some v) \<rparr>)
         \<and> Stats_get cfg (snd (Stats_set cfg statType val s)) statType = Inr (Some v)))"
proof (intro conjI impI)
  assume "\<not> array_includes (Object_values cfg) statType"
  then show "Stats_set cfg statType val s = (Inl (InvalidStatType statType), s)"
    by (simp add: Stats_set_def)
next
  assume "\<not> (\<exists>v. val = Num v \<and> 0 \<le> v) \<and> val \<noteq> NaN"
  then show "\<exists>e. Stats_set cfg statType val s = (Inl e, s)"
    by (cases val) (auto simp: Stats_set_def)
next
  assume "array_includes (Object_values cfg) statType \<and> \<not> (\<exists>v. val = Num v \<and> 0 \<le> v)
        \<and> val \<noteq> NaN"
  then show "Stats_set cfg statType val s = (Inl (InvalidStatValue val), s)"
    by (cases val) (auto simp: Stats_set_def)
next
  assume h: "array_includes (Object_values cfg) statType \<and> val = Num v \<and> 0 \<le> v"
  then obtain k where k: "statType = Str k" "k \<in> set (Object_values cfg)"
    by (cases statType) (auto simp: array_includes_def)
  with h show "\<exists>k. statType = Str k
         \<and> Stats_set cfg statType val s =
             (Inr (), s\<lparr> stat_values := (stat_values s)(k \<mapsto> Some v) \<rparr>)
         \<and> Stats_get cfg (snd (Stats_set cfg statType val s)) statType = Inr (Some v)"
    by (simp add: Stats_set_accepts Stats_get_recognised)
qed

text \<open>
  \<open>LUCK\<close> is not recognised; \<open>DEX\<close> is, and rejects \<open>-1\<close> and the string \<open>"12"\<close>, and
  accepts 12.
\<close>

lemma Stats_set_examples:
  "\<not> array_includes (Object_values test_config) (Str ''LUCK'')
   \<and> Stats_set test_config (Str ''LUCK'') (Num 12) (Stats_new test_config Map.empty)
       = (Inl (InvalidStatType (Str ''LUCK'')), Stats_new test_config Map.empty)
   \<and> array_includes (Object_values test_config) (Str ''DEX'')
   \<and> Stats_set test_config (Str ''DEX'') (Num (- 1)) (Stats_new test_config Map.empty)
       = (Inl (InvalidStatValue (Num (- 1))), Stats_new test_config Map.empty)
   \<and> Stats_set test_config (Str ''DEX'') (Str ''12'') (Stats_new test_config Map.empty)
       = (Inl (InvalidStatValue (Str ''12'')), Stats_new test_config Map.empty)
   \<and> Stats_get test_config
        (snd (Stats_set test_config (Str ''DEX'') (Num 12) (Stats_new test_config Map.empty)))
        (Str ''DEX'') = Inr (Some 12)"
proof -
  let ?s = "Stats_new test_config Map.empty"
  have no: "\<not> array_includes (Object_values test_config) (Str ''LUCK'')"
    by (simp add: test_config_def Object_values_def array_includes_def)
  have yes: "array_includes (Object_values test_config) (Str ''DEX'')"
    by (simp add: test_config_def Object_values_def array_includes_def)
  have a: "Stats_set test_config (Str ''LUCK'') (Num 12) ?s = (Inl (InvalidStatType (Str ''LUCK'')), ?s)"
    using Stats_set_apart_from_NaN [of test_config "Str ''LUCK''" "Num 12" ?s 12] no by blast
  have b: "Stats_set test_config (Str ''DEX'') (Num (- 1)) ?s = (Inl (InvalidStatValue (Num (- 1))), ?s)"
    using Stats_set_apart_from_NaN [of test_config "Str ''DEX''" "Num (- 1)" ?s 0] yes by simp
  have c: "Stats_set test_config (Str ''DEX'') (Str ''12'') ?s = (Inl (InvalidStatValue (Str ''12'')), ?s)"
    using Stats_set_apart_from_NaN [of test_config "Str ''DEX''" "Str ''12''" ?s 0] yes by simp
  have d: "Stats_get test_config (snd (Stats_set test_config (Str ''DEX'') (Num 12) ?s)) (Str ''DEX'')
             = Inr (Some 12)"
  proof -
    have "array_includes (Object_values test_config) (Str ''DEX'') \<and> Num 12 = Num 12 \<and> (0::rat) \<le> 12"
      using yes by simp
    with Stats_set_apart_from_NaN [of test_config "Str ''DEX''" "Num 12" ?s 12] show ?thesis
      by blast
  qed
  from no yes a b c d show ?thesis by blast
qed

section \<open>Defeat\<close>

lemma Monster_takeDamage_empty:
  "Bar_inv (m_hpBar m) \<Longrightarrow> js_le (bar_position (m_hpBar m)) (Some amount) \<Longrightarrow>
   Monster_takeDamage m (Some amount) =
     (True, m\<lparr> m_hpBar := (m_hpBar m)\<lparr> bar_position := Some 0 \<rparr> \<rparr>)"
  by (auto simp: Monster_takeDamage_def Bar_set_value_def Bar_isEmpty_def Bar_inv_def Let_def
      js_le_def js_sub_def js_min_def js_max_def max_def min_def split: option.splits)

text \<open>
  Claim C8, as amended. When a monster's bar satisfies its invariant and the damage is at
  least the position, \<open>takeDamage\<close> leaves the position at 0, \<open>isEmpty()\<close> holds and the
  call returns true. \<open>takeDamage\<close> keeps no record of the defeat: every further call with a
  non-negative amount leaves the monster as it is and returns true again.
\<close>

theorem Monster_takeDamage_defeat_repeats:
  "Bar_inv (m_hpBar m) \<Longrightarrow> js_le (bar_position (m_hpBar m)) (Some amount) \<Longrightarrow>
   Monster_takeDamage m (Some amount) =
     (True, m\<lparr> m_hpBar := (m_hpBar m)\<lparr> bar_position := Some 0 \<rparr> \<rparr>)
   \<and> Bar_isEmpty (m_hpBar (snd (Monster_takeDamage m (Some amount))))
   \<and> (0 \<le> again \<longrightarrow>
        Monster_takeDamage (snd (Monster_takeDamage m (Some amount))) (Some again) =
          (True, snd (Monster_takeDamage m (Some amount))))"
proof -
  assume inv: "Bar_inv (m_hpBar m)" and le: "js_le (bar_position (m_hpBar m)) (Some amount)"
  let ?m' = "m\<lparr> m_hpBar := (m_hpBar m)\<lparr> bar_position := Some 0 \<rparr> \<rparr>"
  have first: "Monster_takeDamage m (Some amount) = (True, ?m')"
    using inv le by (rule Monster_takeDamage_empty)
  have inv': "Bar_inv (m_hpBar ?m')"
    using inv by (auto simp: Bar_inv_def split: option.splits)
  have "0 \<le> again \<longrightarrow> Monster_takeDamage ?m' (Some again) = (True, ?m')"
    using Monster_takeDamage_empty [OF inv', of again] by (simp add: js_le_def)
  with first show ?thesis by (simp add: Bar_isEmpty_def js_le_def)
qed

text \<open>
  The bar at 3/10 takes 5 damage: position 0, empty, true; 5 more damage: true again.
\<close>

theorem Monster_takeDamage_defeat_repeats_witness:
  "Bar_inv (m_hpBar (test_monster 10 3 []))
   \<and> js_le (bar_position (m_hpBar (test_monster 10 3 []))) (Some 5)
   \<and> Monster_takeDamage (test_monster 10 3 []) (Some 5) = (True, test_monster 10 0 [])
   \<and> Bar_isEmpty (m_hpBar (test_monster 10 0 []))
   \<and> Monster_takeDamage (test_monster 10 0 []) (Some 5) = (True, test_monster 10 0 [])"
  using Monster_takeDamage_defeat_repeats [of "test_monster 10 3 []" 5 5]
  by (simp add: test_monster_def Bar_inv_def Bar_isEmpty_def Monster_takeDamage_def
      Bar_set_value_def js_le_def js_sub_def js_min_def js_max_def Let_def)

text \<open>
  The claim as stated fails: after the call that empties the bar at 3/10, the redundant
  calls with 5 and with 0 damage both return true, so the signal is given three times.
\<close>

theorem Monster_takeDamage_once_counterexample:
  "Monster_takeDamage (test_monster 10 3 []) (Some 5) = (True, test_monster 10 0 [])
   \<and> Monster_takeDamage (test_monster 10 0 []) (Some 5) = (True, test_monster 10 0 [])
   \<and> Monster_takeDamage (test_monster 10 0 []) (Some 0) = (True, test_monster 10 0 [])"
  by (simp add: test_monster_def Monster_takeDamage_def Bar_set_value_def Bar_isEmpty_def
      js_le_def js_sub_def js_min_def js_max_def Let_def)

section \<open>The player's attack power\<close>

lemma split_on_append:
  "c \<notin> set n \<Longrightarrow> split_on c (n @ c # r) = n # split_on c r"
  by (induction n) auto

lemma split_on_no_sep: "c \<notin> set s \<Longrightarrow> split_on c s = [s]"
  by (induction s) auto

lemma is_digit_not_d: "is_digit c \<Longrightarrow> c \<noteq> CHR ''d''"
  by (auto simp: is_digit_def)

lemma split_dice:
  assumes "CHR ''d'' \<notin> set n" and "\<forall>c\<in>set ds. is_digit c"
  shows "nth_opt (split_on (CHR ''d'') (n @ ''d'' @ ds)) 1 = Some ds"
proof -
  have "CHR ''d'' \<notin> set ds" using assms(2) is_digit_not_d by blast
  then show ?thesis
    using assms(1) by (simp add: split_on_append split_on_no_sep nth_opt_def)
qed

lemma digit_of_digit: "is_digit c \<Longrightarrow> digit_of 10 c = Some (of_char c - 48)"
  by (auto simp: is_digit_def digit_of_def Let_def)

lemma parseInt_digits:
  assumes ne: "ds \<noteq> []" and dig: "\<forall>c\<in>set ds. is_digit c"
  shows "parseInt ds = Some (of_nat (decimal ds))"
proof -
  obtain c r where ds: "ds = c # r" using ne by (cases ds) auto
  have c: "is_digit c" using dig ds by simp
  then have nws: "\<not> is_ws c" and nsign: "c \<noteq> CHR ''-''" "c \<noteq> CHR ''+''"
    by (auto simp: is_digit_def is_ws_def)
  have s0: "dropWhile is_ws ds = ds" using nws ds by simp
  have sign: "(case ds of c # r \<Rightarrow> if c = CHR ''-'' then - 1 else 1 | [] \<Rightarrow> (1 :: rat)) = 1"
    using nsign ds by simp
  have s1: "(case ds of c # r \<Rightarrow> if c = CHR ''-'' \<or> c = CHR ''+'' then r else ds | [] \<Rightarrow> ds) = ds"
    using nsign ds by simp
  have hex: "(case ds of a # b # r \<Rightarrow> a = CHR ''0'' \<and> (b = CHR ''x'' \<or> b = CHR ''X'') | _ \<Rightarrow> False)
               = False"
  proof (cases r)
    case Nil
    then show ?thesis using ds by simp
  next
    case (Cons b r')
    then have "is_digit b" using dig ds by simp
    then have "b \<noteq> CHR ''x''" "b \<noteq> CHR ''X''" by (auto simp: is_digit_def)
    then show ?thesis using ds Cons by simp
  qed
  have tw: "takeWhile (\<lambda>c. digit_of 10 c \<noteq> None) ds = ds"
    using dig by (simp add: digit_of_digit)
  have fold: "foldl (\<lambda>a c. a * 10 + (case digit_of 10 c of Some d \<Rightarrow> d | None \<Rightarrow> 0)) a0 xs
                = foldl (\<lambda>a c. a * 10 + (of_char c - 48)) a0 xs"
    if "\<forall>c\<in>set xs. is_digit c" for xs a0
    using that by (induction xs arbitrary: a0) (simp_all add: digit_of_digit)
  have "parseInt ds =
          (if takeWhile (\<lambda>c. digit_of 10 c \<noteq> None) ds = [] then None
           else Some (1 * of_nat (foldl (\<lambda>a c. a * 10 + (case digit_of 10 c of Some d \<Rightarrow> d | None \<Rightarrow> 0))
                                   0 (takeWhile (\<lambda>c. digit_of 10 c \<noteq> None) ds))))"
    unfolding parseInt_def Let_def s0 sign s1 hex by simp
  also have "\<dots> = Some (of_nat (decimal ds))"
    unfolding tw fold [OF dig] using ne by (simp add: decimal_def)
  finally show ?thesis .
qed

lemma Stats_getBonus_recognised:
  "k \<in> set (Object_values cfg) \<Longrightarrow>
   Stats_getBonus cfg s (Str k) =
     Inr (calculateStatBonus (case stat_values s k of None \<Rightarrow> None | Some n \<Rightarrow> n))"
  by (simp add: Stats_getBonus_def Stats_get_recognised array_includes_def)

lemma Stats_getBonus_total: "\<exists>b. Stats_getBonus cfg s statType = Inr b"
  by (auto simp: Stats_getBonus_def Stats_get_def split: jsval.splits)

text \<open>
  Claim C3, as amended. Let \<open>v\<close> be the player's STR value, so that the bonus is
  \<open>floor((v - 10) / 2)\<close>. When no weapon is equipped, or the equipped weapon has no
  \<open>damage\<close> or an empty one, \<open>attackPower\<close> is \<open>floor(max(1, 5 + bonus))\<close>: nothing is added,
  the \<open>+ 1\<close> included. When the equipped weapon's damage is \<open>NdM\<close> (\<open>N\<close> without a
  \<open>d\<close>, \<open>M\<close> a non-empty string of digits denoting the number \<open>d\<close>), \<open>attackPower\<close> is
  \<open>floor(max(1, 5 + bonus + d / 2 + 1))\<close>.
\<close>

theorem Player_attackPower_formula:
  "map_of (StatType cfg) ''STRENGTH'' = Some k \<Longrightarrow> stat_values (p_stats p) k = Some (Some v) \<Longrightarrow>
   (p_equippedWeapon p = None
      \<or> (\<exists>w0. p_equippedWeapon p = Some w0 \<and> (w_damage w0 = None \<or> w_damage w0 = Some []))
    \<longrightarrow> Player_attackPower cfg p =
          Inr (Some (of_int \<lfloor>max 1 (5 + of_int \<lfloor>(v - 10) / 2\<rfloor> :: rat)\<rfloor>)))
   \<and> (p_equippedWeapon p = Some w \<and> w_damage w = Some (n @ ''d'' @ ds) \<and> CHR ''d'' \<notin> set n
        \<and> ds \<noteq> [] \<and> (\<forall>c\<in>set ds. is_digit c)
    \<longrightarrow> Player_attackPower cfg p =
          Inr (Some (of_int \<lfloor>max 1 (5 + of_int \<lfloor>(v - 10) / 2\<rfloor> + of_nat (decimal ds) / 2 + 1
                                     :: rat)\<rfloor>)))"
proof (intro conjI impI)
  assume k: "map_of (StatType cfg) ''STRENGTH'' = Some k"
    and v: "stat_values (p_stats p) k = Some (Some v)"
  have bonus: "Stats_getBonus cfg (p_stats p) (StatType_prop cfg ''STRENGTH'')
                 = Inr (Some (of_int \<lfloor>(v - 10) / 2\<rfloor>))"
    using StatType_prop_Some [OF k] v
    by (simp add: Stats_getBonus_recognised calculateStatBonus_def)
  {
    assume "p_equippedWeapon p = None
      \<or> (\<exists>w0. p_equippedWeapon p = Some w0 \<and> (w_damage w0 = None \<or> w_damage w0 = Some []))"
    then show "Player_attackPower cfg p =
          Inr (Some (of_int \<lfloor>max 1 (5 + of_int \<lfloor>(v - 10) / 2\<rfloor> :: rat)\<rfloor>))"
      by (auto simp: Player_attackPower_def bonus js_add_def Let_def)
  }
  {
    assume w: "p_equippedWeapon p = Some w \<and> w_damage w = Some (n @ ''d'' @ ds) \<and> CHR ''d'' \<notin> set n
        \<and> ds \<noteq> [] \<and> (\<forall>c\<in>set ds. is_digit c)"
    then have die: "nth_opt (split_on (CHR ''d'') (n @ ''d'' @ ds)) 1 = Some ds"
      and val: "parseInt ds = Some (of_nat (decimal ds))"
      using split_dice parseInt_digits by blast+
    show "Player_attackPower cfg p =
          Inr (Some (of_int \<lfloor>max 1 (5 + of_int \<lfloor>(v - 10) / 2\<rfloor> + of_nat (decimal ds) / 2 + 1
                                     :: rat)\<rfloor>))"
      using w die val
      by (simp add: Player_attackPower_def bonus js_add_def js_div_def Let_def add.assoc)
  }
qed

text \<open>
  A player with STR 14: attack power 7 with no weapon and with a weapon without damage,
  10 with the \<open>1d4\<close> dagger of the constructor, 8 with a die of 0 sides.
\<close>

theorem Player_attackPower_formula_witness:
  "map_of (StatType test_config) ''STRENGTH'' = Some ''STR''
   \<and> stat_values (p_stats (test_player [(''STR'', 14)] None)) ''STR'' = Some (Some 14)
   \<and> Player_attackPower test_config (test_player [(''STR'', 14)] None) = Inr (Some 7)
   \<and> Player_attackPower test_config (test_player [(''STR'', 14)] (Some (test_weapon None)))
       = Inr (Some 7)
   \<and> Player_attackPower test_config (test_player [(''STR'', 14)] (Some (test_weapon (Some ''1d4''))))
       = Inr (Some 10)
   \<and> Player_attackPower test_config (test_player [(''STR'', 14)] (Some (test_weapon (Some ''1d0''))))
       = Inr (Some 8)"
proof -
  have k: "map_of (StatType test_config) ''STRENGTH'' = Some ''STR''"
    by (simp add: test_config_def)
  have v: "stat_values (p_stats (test_player [(''STR'', 14)] wpn)) ''STR'' = Some (Some 14)" for wpn
    by (simp add: test_player_def Stats_new_lookup test_config_def Object_values_def)
  have a: "Player_attackPower test_config (test_player [(''STR'', 14)] None) = Inr (Some 7)"
    using Player_attackPower_formula [OF k v, of None]
    by (simp add: test_player_def)
  have b: "Player_attackPower test_config (test_player [(''STR'', 14)] (Some (test_weapon None)))
       = Inr (Some 7)"
    using Player_attackPower_formula [OF k v, of "Some (test_weapon None)"]
    by (simp add: test_player_def test_weapon_def)
  have c: "Player_attackPower test_config (test_player [(''STR'', 14)] (Some (test_weapon (Some ''1d4''))))
       = Inr (Some 10)"
    using Player_attackPower_formula [OF k v, of "Some (test_weapon (Some ''1d4''))"
        "test_weapon (Some ''1d4'')" "''1''" "''4''"]
    by (simp add: test_player_def test_weapon_def is_digit_def decimal_def)
  have d: "Player_attackPower test_config (test_player [(''STR'', 14)] (Some (test_weapon (Some ''1d0''))))
       = Inr (Some 8)"
    using Player_attackPower_formula [OF k v, of "Some (test_weapon (Some ''1d0''))"
        "test_weapon (Some ''1d0'')" "''1''" "''0''"]
    by (simp add: test_player_def test_weapon_def is_digit_def decimal_def)
  from k v a b c d show ?thesis by blast
qed

text \<open>
  The claim as stated fails: for a player with STR 14 (bonus 2) and no weapon the claim's
  formula with \<open>d = 0\<close> gives 8, and the attack power is 7. It is 7 as well for the player
  that the constructor builds with a weapon that has no \<open>damage\<close>.
\<close>

theorem Player_attackPower_no_weapon_counterexample:
  "p_equippedWeapon (test_player [(''STR'', 14)] None) = None
   \<and> Stats_getBonus test_config (p_stats (test_player [(''STR'', 14)] None)) (Str ''STR'')
       = Inr (Some 2)
   \<and> Player_attackPower test_config (test_player [(''STR'', 14)] None) = Inr (Some 7)
   \<and> Player_new test_config
        ((test_player_args [(''STR'', 14)])\<lparr> a_equippedWeapon := Some (test_weapon None) \<rparr>)
       = Inr (test_player [(''STR'', 14)] (Some (test_weapon None)))
   \<and> Player_attackPower test_config (test_player [(''STR'', 14)] (Some (test_weapon None)))
       = Inr (Some 7)
   \<and> of_int \<lfloor>max 1 (5 + 2 + 0 / 2 + 1 :: rat)\<rfloor> = (8 :: rat)
   \<and> (7 :: rat) \<noteq> 8"
proof -
  have a: "Stats_getBonus test_config (p_stats (test_player [(''STR'', 14)] None)) (Str ''STR'')
             = Inr (Some 2)"
    and b: "Player_attackPower test_config (test_player [(''STR'', 14)] None) = Inr (Some 7)"
    and c: "Player_attackPower test_config (test_player [(''STR'', 14)] (Some (test_weapon None)))
             = Inr (Some 7)"
    by (simp_all add: test_player_def test_weapon_def test_config_def Player_attackPower_def
        Stats_getBonus_def Stats_get_def Stats_new_def Object_values_def StatType_prop_def
        array_includes_def calculateStatBonus_def js_add_def Let_def)
  have d: "Player_new test_config
        ((test_player_args [(''STR'', 14)])\<lparr> a_equippedWeapon := Some (test_weapon None) \<rparr>)
       = Inr (test_player [(''STR'', 14)] (Some (test_weapon None)))"
    by (simp add: Player_new_def test_player_args_def test_player_def test_config_def Let_def
        maxHp_of_def maxMp_of_def Stats_getBonus_def Stats_get_def Stats_new_def Object_values_def
        StatType_prop_def array_includes_def calculateStatBonus_def js_add_def js_mul_def
        js_or_def js_or_num_def str_or_def Bar_new_def js_le_def js_min_def js_max_def
        Level_new_def calculateExpToNextLevel_def BASE_EXP_TO_NEXT_LEVEL_def
        EXP_MULTIPLIER_PER_LEVEL_def)
  have e: "p_equippedWeapon (test_player [(''STR'', 14)] None) = None"
    by (simp add: test_player_def)
  from a b c d e show ?thesis by simp
qed

section \<open>Attack resolution\<close>

lemma player_turn_hit:
  assumes "Player_hitChance cfg p = Inr hc" and "odds hitDraw (js_div hc 100)"
    and "Player_criticalChance cfg p = Inr cc"
    and "Player_attackPower cfg p = Inr (Some ap)"
    and "Monster_defense cfg m = Inr d"
  shows "player_turn cfg p m hitDraw critDraw =
           Inr (Landed (max 1 ((if odds critDraw (js_div cc 100)
                                then of_int \<lfloor>ap * CRITICAL_MULTIPLIER cfg\<rfloor> else ap) - of_int \<lfloor>d\<rfloor>)),
                snd (Monster_takeDamage m (Some
                       (max 1 ((if odds critDraw (js_div cc 100)
                                then of_int \<lfloor>ap * CRITICAL_MULTIPLIER cfg\<rfloor> else ap) - of_int \<lfloor>d\<rfloor>)))))"
  using assms by (simp add: player_turn_def landed_def Let_def)

lemma monster_turn_hit:
  assumes "odds hitDraw (Some (Monster_hitChance cfg m / 100))"
    and "Monster_attackPower cfg m = Inr ap"
    and "Player_defense cfg p = Inr (Some d)"
    and "Player_evasionRate cfg p = Inr ev" and "\<not> odds evadeDraw (js_div ev 100)"
  shows "monster_turn cfg m p Attack hitDraw critDraw evadeDraw =
           Inr (Landed (max 1 ((if odds critDraw (Some (Monster_criticalChance cfg m / 100))
                                then of_int \<lfloor>ap * CRITICAL_MULTIPLIER cfg\<rfloor> else ap) - of_int \<lfloor>d\<rfloor>)),
                snd (Player_takeDamage p (Some
                       (max 1 ((if odds critDraw (Some (Monster_criticalChance cfg m / 100))
                                then of_int \<lfloor>ap * CRITICAL_MULTIPLIER cfg\<rfloor> else ap) - of_int \<lfloor>d\<rfloor>)))))"
  using assms by (simp add: monster_turn_def landed_def Let_def)

lemma monster_turn_evaded:
  assumes "odds hitDraw (Some (Monster_hitChance cfg m / 100))"
    and "Monster_attackPower cfg m = Inr ap"
    and "Player_defense cfg p = Inr d"
    and "Player_evasionRate cfg p = Inr ev" and "odds evadeDraw (js_div ev 100)"
  shows "monster_turn cfg m p Attack hitDraw critDraw evadeDraw =
           Inr (Evaded, snd (Player_takeDamage p (Some 0)))"
  using assms by (simp add: monster_turn_def landed_def Let_def)

lemma player_turn_landed_ge_1:
  "player_turn cfg p m hitDraw critDraw = Inr (Landed a, m') \<Longrightarrow> 1 \<le> a"
  by (auto simp: player_turn_def landed_def Let_def split: sum.splits if_splits option.splits)

lemma monster_turn_landed_ge_1:
  "monster_turn cfg m p act hitDraw critDraw evadeDraw = Inr (Landed a, p') \<Longrightarrow> 1 \<le> a"
  by (auto simp: monster_turn_def landed_def Let_def
      split: sum.splits if_splits option.splits action.splits)

text \<open>
  Claim C4, as amended. On the player's turn with hit chance 100, whatever the hit draw in
  \<open>[0, 1)\<close>, \<open>takeDamage\<close> is called on the monster with
  \<open>max(1, damage - floor(defense))\<close>, where \<open>damage\<close> is the attack power, or
  \<open>floor(attackPower * CRITICAL_MULTIPLIER)\<close> when the critical draw is below
  \<open>criticalChance / 100\<close>. On the monster's turn with hit chance 100 and the player's
  evasion rate 0 the same holds with the roles exchanged, whatever the hit and evasion
  draws. So the damage does not depend on the hit draw or on the evasion draw; it still
  depends on the critical draw. On either turn, a hit that lands deals at least 1. (The
  attack power is a finite number here: one that is \<open>NaN\<close>, from a weapon whose damage is
  not in dice notation, makes the damage \<open>NaN\<close>, and \<open>takeDamage(NaN)\<close> is called.)
\<close>

theorem attack_damage_full_hit_chance:
  "(Player_hitChance cfg p = Inr (Some 100) \<and> hitDraw < 1
      \<and> Player_criticalChance cfg p = Inr cc \<and> Player_attackPower cfg p = Inr (Some ap)
      \<and> Monster_defense cfg m = Inr d
    \<longrightarrow> player_turn cfg p m hitDraw critDraw =
          Inr (Landed (max 1 ((if odds critDraw (js_div cc 100)
                               then of_int \<lfloor>ap * CRITICAL_MULTIPLIER cfg\<rfloor> else ap) - of_int \<lfloor>d\<rfloor>)),
               snd (Monster_takeDamage m (Some
                      (max 1 ((if odds critDraw (js_div cc 100)
                               then of_int \<lfloor>ap * CRITICAL_MULTIPLIER cfg\<rfloor> else ap) - of_int \<lfloor>d\<rfloor>))))))
   \<and> (Monster_hitChance cfg m = 100 \<and> hitDraw < 1
      \<and> Player_evasionRate cfg p = Inr (Some 0) \<and> 0 \<le> evadeDraw
      \<and> Monster_attackPower cfg m = Inr ap' \<and> Player_defense cfg p = Inr (Some d')
    \<longrightarrow> monster_turn cfg m p Attack hitDraw critDraw evadeDraw =
          Inr (Landed (max 1 ((if odds critDraw (Some (Monster_criticalChance cfg m / 100))
                               then of_int \<lfloor>ap' * CRITICAL_MULTIPLIER cfg\<rfloor> else ap') - of_int \<lfloor>d'\<rfloor>)),
               snd (Player_takeDamage p (Some
                      (max 1 ((if odds critDraw (Some (Monster_criticalChance cfg m / 100))
                               then of_int \<lfloor>ap' * CRITICAL_MULTIPLIER cfg\<rfloor> else ap') - of_int \<lfloor>d'\<rfloor>))))))
   \<and> (player_turn cfg p m hitDraw critDraw = Inr (Landed a, m') \<longrightarrow> 1 \<le> a)
   \<and> (monster_turn cfg m p act hitDraw critDraw evadeDraw = Inr (Landed a, p') \<longrightarrow> 1 \<le> a)"
proof (intro conjI impI)
  assume h: "Player_hitChance cfg p = Inr (Some 100) \<and> hitDraw < 1
      \<and> Player_criticalChance cfg p = Inr cc \<and> Player_attackPower cfg p = Inr (Some ap)
      \<and> Monster_defense cfg m = Inr d"
  then have "odds hitDraw (js_div (Some 100) 100)" by (simp add: odds_def js_div_def)
  with h show "player_turn cfg p m hitDraw critDraw =
          Inr (Landed (max 1 ((if odds critDraw (js_div cc 100)
                               then of_int \<lfloor>ap * CRITICAL_MULTIPLIER cfg\<rfloor> else ap) - of_int \<lfloor>d\<rfloor>)),
               snd (Monster_takeDamage m (Some
                      (max 1 ((if odds critDraw (js_div cc 100)
                               then of_int \<lfloor>ap * CRITICAL_MULTIPLIER cfg\<rfloor> else ap) - of_int \<lfloor>d\<rfloor>)))))"
    by (intro player_turn_hit) simp_all
next
  assume h: "Monster_hitChance cfg m = 100 \<and> hitDraw < 1
      \<and> Player_evasionRate cfg p = Inr (Some 0) \<and> 0 \<le> evadeDraw
      \<and> Monster_attackPower cfg m = Inr ap' \<and> Player_defense cfg p = Inr (Some d')"
  then have "odds hitDraw (Some (Monster_hitChance cfg m / 100))"
    and "\<not> odds evadeDraw (js_div (Some 0) 100)"
    by (simp_all add: odds_def js_div_def)
  with h show "monster_turn cfg m p Attack hitDraw critDraw evadeDraw =
          Inr (Landed (max 1 ((if odds critDraw (Some (Monster_criticalChance cfg m / 100))
                               then of_int \<lfloor>ap' * CRITICAL_MULTIPLIER cfg\<rfloor> else ap') - of_int \<lfloor>d'\<rfloor>)),
               snd (Player_takeDamage p (Some
                      (max 1 ((if odds critDraw (Some (Monster_criticalChance cfg m / 100))
                               then of_int \<lfloor>ap' * CRITICAL_MULTIPLIER cfg\<rfloor> else ap') - of_int \<lfloor>d'\<rfloor>)))))"
    by (intro monster_turn_hit [where ev = "Some 0"]) simp_all
next
  assume "player_turn cfg p m hitDraw critDraw = Inr (Landed a, m')"
  then show "1 \<le> a" by (rule player_turn_landed_ge_1)
next
  assume "monster_turn cfg m p act hitDraw critDraw evadeDraw = Inr (Landed a, p')"
  then show "1 \<le> a" by (rule monster_turn_landed_ge_1)
qed

lemma test_player_attrs:
  "Player_hitChance test_config (test_player [(''STR'', 14)] (Some (test_weapon (Some ''1d4''))))
     = Inr (Some 100)"
  "Player_criticalChance test_config (test_player [(''STR'', 14)] (Some (test_weapon (Some ''1d4''))))
     = Inr (Some 50)"
  "Player_evasionRate test_config (test_player [(''STR'', 14)] (Some (test_weapon (Some ''1d4''))))
     = Inr (Some 0)"
  "Player_defense test_config (test_player [(''STR'', 14)] (Some (test_weapon (Some ''1d4''))))
     = Inr (Some 2)"
  "Player_attackPower test_config (test_player [(''STR'', 14)] (Some (test_weapon (Some ''1d4''))))
     = Inr (Some 10)"
  by (simp_all add: test_player_def test_weapon_def test_config_def Player_hitChance_def
      Player_criticalChance_def Player_evasionRate_def Player_defense_def Player_attackPower_def
      Stats_getBonus_def Stats_get_def Stats_new_def Object_values_def StatType_prop_def
      array_includes_def truthy_def calculateStatBonus_def js_add_def js_mul_def js_div_def
      Let_def nth_opt_def parseInt_def is_ws_def digit_of_def)

lemma test_monster_attrs:
  "Monster_defense test_config (test_monster 30 30 [(''STR'', 8), (''CON'', 10)]) = Inr 5"
  "Monster_attackPower test_config (test_monster 30 30 [(''STR'', 8), (''CON'', 10)]) = Inr 8"
  "Monster_hitChance test_config (test_monster 30 30 [(''STR'', 8), (''CON'', 10)]) = 100"
  "Monster_criticalChance test_config (test_monster 30 30 [(''STR'', 8), (''CON'', 10)]) = 50"
  "Monster_evasionRate test_config (test_monster 30 30 [(''STR'', 8), (''CON'', 10)]) = 0"
  by (simp_all add: test_monster_def test_config_def Monster_defense_def Monster_attackPower_def
      Monster_hitChance_def Monster_criticalChance_def Monster_evasionRate_def
      Stats_get_def Stats_new_def Object_values_def StatType_prop_def array_includes_def js_or_def)

lemma test_config_consts:
  "CRITICAL_MULTIPLIER test_config = 2" "BASE_EVASION_RATE test_config = 0"
  "BASE_HIT_CHANCE test_config = 100" "BASE_CRITICAL_CHANCE test_config = 50"
  by (simp_all add: test_config_def)

lemma test_monster_takeDamage:
  "snd (Monster_takeDamage (test_monster mx pos st) (Some a)) =
     test_monster mx (min (max 0 (pos - a)) mx) st"
  by (simp add: Monster_takeDamage_def Bar_set_value_def js_sub_def js_min_def js_max_def Let_def
      test_monster_def)

lemma test_player_takeDamage:
  "snd (Player_takeDamage (test_player st w) (Some a)) =
     (test_player st w)
       \<lparr> p_hpBar := \<lparr> bar_max = Some 25, bar_position = Some (min (max 0 (25 - a)) 25) \<rparr> \<rparr>"
  by (simp add: Player_takeDamage_def Bar_set_value_def js_sub_def js_min_def js_max_def Let_def
      test_player_def)

text \<open>
  Attack power 10 against defense 5 deals 5; attack power 8 against defense 2 deals 6
  (no critical hit in either case).
\<close>

theorem attack_damage_full_hit_chance_witness:
  "Player_hitChance test_config (test_player [(''STR'', 14)] (Some (test_weapon (Some ''1d4''))))
     = Inr (Some 100)
   \<and> Monster_hitChance test_config (test_monster 30 30 [(''STR'', 8), (''CON'', 10)]) = 100
   \<and> Player_evasionRate test_config (test_player [(''STR'', 14)] (Some (test_weapon (Some ''1d4''))))
     = Inr (Some 0)
   \<and> player_turn test_config (test_player [(''STR'', 14)] (Some (test_weapon (Some ''1d4''))))
        (test_monster 30 30 [(''STR'', 8), (''CON'', 10)]) (1 / 2) (9 / 10)
       = Inr (Landed 5, test_monster 30 25 [(''STR'', 8), (''CON'', 10)])
   \<and> monster_turn test_config (test_monster 30 30 [(''STR'', 8), (''CON'', 10)])
        (test_player [(''STR'', 14)] (Some (test_weapon (Some ''1d4'')))) Attack (1 / 2) (9 / 10) (1 / 2)
       = Inr (Landed 6, (test_player [(''STR'', 14)] (Some (test_weapon (Some ''1d4''))))
                          \<lparr> p_hpBar := \<lparr> bar_max = Some 25, bar_position = Some 19 \<rparr> \<rparr>)"
proof -
  let ?p = "test_player [(''STR'', 14)] (Some (test_weapon (Some ''1d4'')))"
  let ?m = "test_monster 30 30 [(''STR'', 8), (''CON'', 10)]"
  note T = attack_damage_full_hit_chance [of test_config ?p "1 / 2" "Some 50" 10 ?m 5 "9 / 10"
      "1 / 2" 8 2]
  have a: "player_turn test_config ?p ?m (1 / 2) (9 / 10) =
             Inr (Landed 5, test_monster 30 25 [(''STR'', 8), (''CON'', 10)])"
    using T test_player_attrs test_monster_attrs
    by (simp add: odds_def js_div_def test_monster_takeDamage test_config_consts)
  have b: "monster_turn test_config ?m ?p Attack (1 / 2) (9 / 10) (1 / 2) =
             Inr (Landed 6, ?p\<lparr> p_hpBar := \<lparr> bar_max = Some 25, bar_position = Some 19 \<rparr> \<rparr>)"
    using T test_player_attrs test_monster_attrs
    by (simp add: odds_def js_div_def test_player_takeDamage test_config_consts)
  from a b test_player_attrs(1,3) test_monster_attrs(3) show ?thesis by blast
qed

text \<open>
  The claim as stated fails: with hit chance 100, evasion rate 0, attack power 10 and
  defense 5 the claim gives \<open>max(1, 10 - 5) = 5\<close> whatever is drawn; the critical draw
  \<open>0.9\<close> deals 5, and the critical draw \<open>0\<close> deals 15.
\<close>

theorem attack_damage_critical_counterexample:
  "Player_hitChance test_config (test_player [(''STR'', 14)] (Some (test_weapon (Some ''1d4''))))
     = Inr (Some 100)
   \<and> Monster_evasionRate test_config (test_monster 30 30 [(''STR'', 8), (''CON'', 10)]) = 0
   \<and> Player_attackPower test_config (test_player [(''STR'', 14)] (Some (test_weapon (Some ''1d4''))))
     = Inr (Some 10)
   \<and> Monster_defense test_config (test_monster 30 30 [(''STR'', 8), (''CON'', 10)]) = Inr 5
   \<and> max 1 (10 - of_int \<lfloor>5 :: rat\<rfloor>) = (5 :: rat)
   \<and> player_turn test_config (test_player [(''STR'', 14)] (Some (test_weapon (Some ''1d4''))))
        (test_monster 30 30 [(''STR'', 8), (''CON'', 10)]) 0 (9 / 10)
       = Inr (Landed 5, test_monster 30 25 [(''STR'', 8), (''CON'', 10)])
   \<and> player_turn test_config (test_player [(''STR'', 14)] (Some (test_weapon (Some ''1d4''))))
        (test_monster 30 30 [(''STR'', 8), (''CON'', 10)]) 0 0
       = Inr (Landed 15, test_monster 30 15 [(''STR'', 8), (''CON'', 10)])"
  using player_turn_hit [OF test_player_attrs(1) _ test_player_attrs(2) test_player_attrs(5)
      test_monster_attrs(1), of 0 0]
    player_turn_hit [OF test_player_attrs(1) _ test_player_attrs(2) test_player_attrs(5)
      test_monster_attrs(1), of 0 "9 / 10"]
  by (simp add: test_player_attrs test_monster_attrs odds_def js_div_def test_monster_takeDamage
      test_config_consts)

text \<open>
  Claim C10. A monster whose STR value is 0 has attack power 5, and one whose CON value is
  0 has defense \<open>1/2\<close>. For a CON value \<open>c\<close> other than 0 the defense is \<open>max(0, c / 2)\<close>,
  not rounded; the player's turn subtracts its floor: a hit calls \<open>takeDamage\<close> with
  \<open>max(1, damage - floor(max(0, c / 2)))\<close>.
\<close>

theorem Monster_falsy_or_defaults:
  "(map_of (StatType cfg) ''STRENGTH'' = Some ks \<and> stat_values (m_stats m) ks = Some (Some 0)
      \<longrightarrow> Monster_attackPower cfg m = Inr 5)
   \<and> (map_of (StatType cfg) ''CONSTITUTION'' = Some kc \<and> stat_values (m_stats m) kc = Some (Some 0)
      \<longrightarrow> Monster_defense cfg m = Inr (1 / 2))
   \<and> (map_of (StatType cfg) ''CONSTITUTION'' = Some kc \<and> stat_values (m_stats m) kc = Some (Some c)
       \<and> c \<noteq> 0
      \<longrightarrow> Monster_defense cfg m = Inr (max 0 (c / 2))
          \<and> (Player_hitChance cfg p = Inr hc \<and> odds hitDraw (js_div hc 100)
              \<and> Player_criticalChance cfg p = Inr cc \<and> Player_attackPower cfg p = Inr (Some ap)
             \<longrightarrow> player_turn cfg p m hitDraw critDraw =
                   Inr (Landed (max 1 ((if odds critDraw (js_div cc 100)
                                        then of_int \<lfloor>ap * CRITICAL_MULTIPLIER cfg\<rfloor> else ap)
                                       - of_int \<lfloor>max 0 (c / 2)\<rfloor>)),
                        snd (Monster_takeDamage m (Some
                               (max 1 ((if odds critDraw (js_div cc 100)
                                        then of_int \<lfloor>ap * CRITICAL_MULTIPLIER cfg\<rfloor> else ap)
                                       - of_int \<lfloor>max 0 (c / 2)\<rfloor>)))))))"
proof (intro conjI impI)
  assume "map_of (StatType cfg) ''STRENGTH'' = Some ks \<and> stat_values (m_stats m) ks = Some (Some 0)"
  then show "Monster_attackPower cfg m = Inr 5"
    by (simp add: Monster_attackPower_eq)
next
  assume "map_of (StatType cfg) ''CONSTITUTION'' = Some kc \<and> stat_values (m_stats m) kc = Some (Some 0)"
  then show "Monster_defense cfg m = Inr (1 / 2)"
    by (simp add: Monster_defense_eq)
next
  assume "map_of (StatType cfg) ''CONSTITUTION'' = Some kc \<and> stat_values (m_stats m) kc = Some (Some c)
       \<and> c \<noteq> 0"
  then show "Monster_defense cfg m = Inr (max 0 (c / 2))"
    by (simp add: Monster_defense_eq)
next
  assume c: "map_of (StatType cfg) ''CONSTITUTION'' = Some kc \<and> stat_values (m_stats m) kc = Some (Some c)
       \<and> c \<noteq> 0"
    and h: "Player_hitChance cfg p = Inr hc \<and> odds hitDraw (js_div hc 100)
              \<and> Player_criticalChance cfg p = Inr cc \<and> Player_attackPower cfg p = Inr (Some ap)"
  from c have d: "Monster_defense cfg m = Inr (max 0 (c / 2))"
    by (simp add: Monster_defense_eq)
  from h d show "player_turn cfg p m hitDraw critDraw =
                   Inr (Landed (max 1 ((if odds critDraw (js_div cc 100)
                                        then of_int \<lfloor>ap * CRITICAL_MULTIPLIER cfg\<rfloor> else ap)
                                       - of_int \<lfloor>max 0 (c / 2)\<rfloor>)),
                        snd (Monster_takeDamage m (Some
                               (max 1 ((if odds critDraw (js_div cc 100)
                                        then of_int \<lfloor>ap * CRITICAL_MULTIPLIER cfg\<rfloor> else ap)
                                       - of_int \<lfloor>max 0 (c / 2)\<rfloor>)))))"
    using player_turn_hit [of cfg p hc hitDraw cc ap m "max 0 (c / 2)" critDraw] by blast
qed

lemma test_monster_stat:
  "stat_values (m_stats (test_monster mx pos st)) k =
     (if k \<in> {''STR'', ''DEX'', ''CON'', ''INT'', ''WIS'', ''CHA''}
      then Some (Some (case map_of st k of Some v \<Rightarrow> v | None \<Rightarrow> 10)) else None)"
  by (simp add: test_monster_def Stats_new_lookup test_config_def Object_values_def)

lemma test_config_keys:
  "map_of (StatType test_config) ''STRENGTH'' = Some ''STR''"
  "map_of (StatType test_config) ''CONSTITUTION'' = Some ''CON''"
  by (simp_all add: test_config_def)

text \<open>
  STR 0 and CON 0 give attack power 5 and defense \<open>1/2\<close>; CON 5 gives defense \<open>5/2\<close>, and
  a hit of 10 then deals \<open>10 - 2 = 8\<close>.
\<close>

theorem Monster_falsy_or_defaults_witness:
  "map_of (StatType test_config) ''STRENGTH'' = Some ''STR''
   \<and> map_of (StatType test_config) ''CONSTITUTION'' = Some ''CON''
   \<and> stat_values (m_stats (test_monster 30 30 [(''STR'', 0), (''CON'', 0)])) ''STR'' = Some (Some 0)
   \<and> stat_values (m_stats (test_monster 30 30 [(''STR'', 0), (''CON'', 0)])) ''CON'' = Some (Some 0)
   \<and> Monster_attackPower test_config (test_monster 30 30 [(''STR'', 0), (''CON'', 0)]) = Inr 5
   \<and> Monster_defense test_config (test_monster 30 30 [(''STR'', 0), (''CON'', 0)]) = Inr (1 / 2)
   \<and> stat_values (m_stats (test_monster 30 30 [(''CON'', 5)])) ''CON'' = Some (Some 5)
   \<and> Monster_defense test_config (test_monster 30 30 [(''CON'', 5)]) = Inr (5 / 2)
   \<and> player_turn test_config (test_player [(''STR'', 14)] (Some (test_weapon (Some ''1d4''))))
        (test_monster 30 30 [(''CON'', 5)]) 0 (9 / 10)
       = Inr (Landed 8, test_monster 30 22 [(''CON'', 5)])"
proof -
  let ?p = "test_player [(''STR'', 14)] (Some (test_weapon (Some ''1d4'')))"
  let ?m0 = "test_monster 30 30 [(''STR'', 0), (''CON'', 0)]"
  let ?m5 = "test_monster 30 30 [(''CON'', 5)]"
  have s: "stat_values (m_stats ?m0) ''STR'' = Some (Some 0)"
    "stat_values (m_stats ?m0) ''CON'' = Some (Some 0)"
    "stat_values (m_stats ?m5) ''CON'' = Some (Some 5)"
    by (simp_all add: test_monster_stat)
  have a: "Monster_attackPower test_config ?m0 = Inr 5"
    and b: "Monster_defense test_config ?m0 = Inr (1 / 2)"
    using Monster_falsy_or_defaults [of test_config "''STR''" ?m0 "''CON''" 0] test_config_keys s
    by simp_all
  note T = Monster_falsy_or_defaults [of test_config "''STR''" ?m5 "''CON''" 5 ?p "Some 100" 0
      "Some 50" 10 "9 / 10"]
  have c: "Monster_defense test_config ?m5 = Inr (5 / 2)"
    using T test_config_keys s by simp
  have fl: "\<lfloor>5 / 2 :: rat\<rfloor> = 2" by (simp add: floor_eq_iff)
  have "odds 0 (js_div (Some 100) 100)" by (simp add: odds_def js_div_def)
  then have d: "player_turn test_config ?p ?m5 0 (9 / 10) =
                  Inr (Landed 8, test_monster 30 22 [(''CON'', 5)])"
    using T test_config_keys s test_player_attrs
    by (simp add: odds_def js_div_def test_monster_takeDamage fl)
  from test_config_keys s a b c d show ?thesis by blast
qed

lemma evasion_rate_unread:
  "Object_values (cfg\<lparr> BASE_EVASION_RATE := e \<rparr>) = Object_values cfg"
  "StatType_prop (cfg\<lparr> BASE_EVASION_RATE := e \<rparr>) = StatType_prop cfg"
  "Stats_get (cfg\<lparr> BASE_EVASION_RATE := e \<rparr>) = Stats_get cfg"
  "Stats_getBonus (cfg\<lparr> BASE_EVASION_RATE := e \<rparr>) = Stats_getBonus cfg"
proof -
  show a: "Object_values (cfg\<lparr> BASE_EVASION_RATE := e \<rparr>) = Object_values cfg"
    by (simp add: Object_values_def)
  show b: "StatType_prop (cfg\<lparr> BASE_EVASION_RATE := e \<rparr>) = StatType_prop cfg"
    by (intro ext) (simp add: StatType_prop_def)
  show c: "Stats_get (cfg\<lparr> BASE_EVASION_RATE := e \<rparr>) = Stats_get cfg"
    by (intro ext) (simp add: Stats_get_def a)
  show "Stats_getBonus (cfg\<lparr> BASE_EVASION_RATE := e \<rparr>) = Stats_getBonus cfg"
    by (intro ext) (simp add: Stats_getBonus_def a c)
qed

text \<open>
  The player's turn does not read the base evasion rate at all.
\<close>

lemma player_turn_evasion_independent:
  "player_turn (cfg\<lparr> BASE_EVASION_RATE := e \<rparr>) p m hitDraw critDraw
     = player_turn cfg p m hitDraw critDraw"
proof -
  have "Player_hitChance (cfg\<lparr> BASE_EVASION_RATE := e \<rparr>) p = Player_hitChance cfg p"
    by (simp add: Player_hitChance_def evasion_rate_unread cong: sum.case_cong)
  moreover have "Player_criticalChance (cfg\<lparr> BASE_EVASION_RATE := e \<rparr>) p
                   = Player_criticalChance cfg p"
    by (simp add: Player_criticalChance_def evasion_rate_unread cong: sum.case_cong)
  moreover have "Player_attackPower (cfg\<lparr> BASE_EVASION_RATE := e \<rparr>) p
                   = Player_attackPower cfg p"
    by (simp add: Player_attackPower_def evasion_rate_unread cong: sum.case_cong)
  moreover have "Monster_defense (cfg\<lparr> BASE_EVASION_RATE := e \<rparr>) m = Monster_defense cfg m"
    by (simp add: Monster_defense_def evasion_rate_unread cong: sum.case_cong)
  ultimately show ?thesis
    by (simp add: player_turn_def Let_def cong: sum.case_cong if_cong)
qed

text \<open>
  Claim C2. The player's turn makes no evasion test: with the base evasion rate 100, so
  that the monster's \<open>evasionRate\<close> is 100 and the test of the claim would succeed on every
  draw, the player's hit still calls \<open>takeDamage(5)\<close>. The monster's turn makes the test:
  with the player's evasion rate 100 the attack is evaded and the player is unharmed.
\<close>

theorem player_turn_no_evasion_test:
  "Monster_evasionRate (test_config\<lparr> BASE_EVASION_RATE := 100 \<rparr>)
       (test_monster 30 30 [(''STR'', 8), (''CON'', 10)]) = 100
   \<and> player_turn (test_config\<lparr> BASE_EVASION_RATE := 100 \<rparr>)
        (test_player [(''STR'', 14)] (Some (test_weapon (Some ''1d4''))))
        (test_monster 30 30 [(''STR'', 8), (''CON'', 10)]) 0 (9 / 10)
       = Inr (Landed 5, test_monster 30 25 [(''STR'', 8), (''CON'', 10)])
   \<and> Player_evasionRate (test_config\<lparr> BASE_EVASION_RATE := 100 \<rparr>)
        (test_player [(''STR'', 14)] (Some (test_weapon (Some ''1d4'')))) = Inr (Some 100)
   \<and> monster_turn (test_config\<lparr> BASE_EVASION_RATE := 100 \<rparr>)
        (test_monster 30 30 [(''STR'', 8), (''CON'', 10)])
        (test_player [(''STR'', 14)] (Some (test_weapon (Some ''1d4'')))) Attack 0 (9 / 10) (99 / 100)
       = Inr (Evaded, test_player [(''STR'', 14)] (Some (test_weapon (Some ''1d4''))))"
proof -
  let ?cfg = "test_config\<lparr> BASE_EVASION_RATE := 100 \<rparr>"
  let ?p = "test_player [(''STR'', 14)] (Some (test_weapon (Some ''1d4'')))"
  let ?m = "test_monster 30 30 [(''STR'', 8), (''CON'', 10)]"
  have a: "Monster_evasionRate ?cfg ?m = 100" by (simp add: Monster_evasionRate_def)
  have "player_turn test_config ?p ?m 0 (9 / 10) =
          Inr (Landed 5, test_monster 30 25 [(''STR'', 8), (''CON'', 10)])"
    using player_turn_hit [OF test_player_attrs(1) _ test_player_attrs(2) test_player_attrs(5)
        test_monster_attrs(1), of 0 "9 / 10"]
    by (simp add: odds_def js_div_def test_monster_takeDamage test_config_consts)
  then have b: "player_turn ?cfg ?p ?m 0 (9 / 10) =
          Inr (Landed 5, test_monster 30 25 [(''STR'', 8), (''CON'', 10)])"
    by (simp add: player_turn_evasion_independent)
  have ev: "Player_evasionRate ?cfg ?p = Inr (Some 100)"
    by (simp add: test_player_def test_config_def Player_evasionRate_def
      Stats_getBonus_def Stats_get_def Stats_new_def Object_values_def StatType_prop_def
      array_includes_def calculateStatBonus_def js_add_def js_mul_def)
  have ap: "Monster_attackPower ?cfg ?m = Inr 8"
    by (simp add: test_monster_def test_config_def Monster_attackPower_def
      Stats_get_def Stats_new_def Object_values_def StatType_prop_def array_includes_def js_or_def)
  have df: "Player_defense ?cfg ?p = Inr (Some 2)"
    by (simp add: test_player_def test_config_def Player_defense_def
      Stats_getBonus_def Stats_get_def Stats_new_def Object_values_def StatType_prop_def
      array_includes_def calculateStatBonus_def js_add_def)
  have hit: "odds 0 (Some (Monster_hitChance ?cfg ?m / 100))"
    by (simp add: odds_def Monster_hitChance_def test_config_def)
  have evd: "odds (99 / 100) (js_div (Some 100) 100)"
    by (simp add: odds_def js_div_def)
  have "monster_turn ?cfg ?m ?p Attack 0 (9 / 10) (99 / 100) = Inr (Evaded, snd (Player_takeDamage ?p (Some 0)))"
    using hit ap df ev evd by (rule monster_turn_evaded)
  then have c: "monster_turn ?cfg ?m ?p Attack 0 (9 / 10) (99 / 100) = Inr (Evaded, ?p)"
    by (simp add: test_player_takeDamage) (simp add: test_player_def)
  from a b ev c show ?thesis by blast
qed

section \<open>Further properties\<close>

lemma Player_new_weapon:
  "Player_new cfg a = Inr p \<Longrightarrow> \<exists>w. p_equippedWeapon p = Some w"
  by (auto simp: Player_new_def Let_def split: sum.splits option.splits)

text \<open>
  The sample player with the dagger is what the constructor builds from the name and the
  stats alone.
\<close>

lemma Player_new_test:
  "Player_new test_config (test_player_args [(''STR'', 14)]) =
     Inr (test_player [(''STR'', 14)]
            (Some \<lparr> w_name = ''Worn Dagger'', w_type = ''Weapon'', w_damage = Some ''1d4'',
                    w_effect = ''None'' \<rparr>))"
  by (simp add: Player_new_def test_player_args_def test_player_def test_config_def Let_def
      maxHp_of_def maxMp_of_def Stats_getBonus_def Stats_get_def Stats_new_def Object_values_def
      StatType_prop_def array_includes_def calculateStatBonus_def js_add_def js_mul_def js_or_def
      js_or_num_def str_or_def Bar_new_def js_le_def js_min_def js_max_def Level_new_def
      calculateExpToNextLevel_def BASE_EXP_TO_NEXT_LEVEL_def EXP_MULTIPLIER_PER_LEVEL_def)

text \<open>
  The bonus of a stat value \<open>v\<close> is \<open>floor((v - 10) / 2)\<close>: 0 for 10,
  4 for 18 and \<open>-2\<close> for 7; a value that is not a number has no bonus (\<open>NaN\<close>).
\<close>

theorem calculateStatBonus_values:
  "calculateStatBonus (Some v) = Some (of_int \<lfloor>(v - 10) / 2\<rfloor>)
   \<and> calculateStatBonus (Some 10) = Some 0
   \<and> calculateStatBonus (Some 18) = Some 4
   \<and> calculateStatBonus (Some 7) = Some (- 2)
   \<and> calculateStatBonus None = None"
proof -
  have "\<lfloor>- 3 / 2 :: rat\<rfloor> = - 2" by (simp add: floor_eq_iff)
  then show ?thesis by (simp add: calculateStatBonus_def)
qed

text \<open>
  \<open>getBonus\<close> never throws, and returns 0 for every key that is neither
  recognised nor \<open>LUCK\<close>; \<open>get\<close> throws exactly for those keys. When \<open>LUCK\<close> is not a
  recognised key, \<open>get('LUCK')\<close> is 10 and its bonus is 0.
\<close>

theorem Stats_bonus_total_get_partial:
  "(\<exists>b. Stats_getBonus cfg s statType = Inr b)
   \<and> (Stats_getBonus cfg s statType = Inr (Some 0)
        \<or> array_includes (Object_values cfg) statType \<or> statType = Str ''LUCK'')
   \<and> ((\<exists>e. Stats_get cfg s statType = Inl e)
        \<longleftrightarrow> \<not> array_includes (Object_values cfg) statType \<and> statType \<noteq> Str ''LUCK'')
   \<and> (\<not> array_includes (Object_values cfg) (Str ''LUCK'') \<longrightarrow>
        Stats_get cfg s (Str ''LUCK'') = Inr (Some 10)
        \<and> Stats_getBonus cfg s (Str ''LUCK'') = Inr (Some 0))"
  by (auto simp: Stats_getBonus_def Stats_get_def calculateStatBonus_def split: jsval.splits)

theorem Stats_bonus_total_get_partial_witness:
  "\<not> array_includes (Object_values test_config) (Str ''LUCK'')
   \<and> Stats_get test_config (Stats_new test_config Map.empty) (Str ''LUCK'') = Inr (Some 10)
   \<and> Stats_getBonus test_config (Stats_new test_config Map.empty) (Str ''LUCK'') = Inr (Some 0)
   \<and> Stats_get test_config (Stats_new test_config Map.empty) (Str ''MANA'')
       = Inl (InvalidStatType (Str ''MANA''))
   \<and> Stats_getBonus test_config (Stats_new test_config Map.empty) (Str ''MANA'') = Inr (Some 0)"
proof -
  let ?s = "Stats_new test_config Map.empty"
  have no: "\<not> array_includes (Object_values test_config) (Str ''LUCK'')"
    by (simp add: test_config_def Object_values_def array_includes_def)
  have a: "Stats_get test_config ?s (Str ''LUCK'') = Inr (Some 10)"
    and b: "Stats_getBonus test_config ?s (Str ''LUCK'') = Inr (Some 0)"
    using Stats_bonus_total_get_partial [of test_config ?s "Str ''LUCK''"] no by blast+
  have c: "Stats_get test_config ?s (Str ''MANA'') = Inl (InvalidStatType (Str ''MANA''))"
    and d: "Stats_getBonus test_config ?s (Str ''MANA'') = Inr (Some 0)"
    by (simp_all add: Stats_get_def Stats_getBonus_def test_config_def Object_values_def
        array_includes_def)
  from no a b c d show ?thesis by blast
qed

text \<open>
  With hit chance 0 every attack misses, whatever is drawn, and the
  defender is left as it was.
\<close>

theorem zero_hit_chance_misses:
  "(Player_hitChance cfg p = Inr (Some 0) \<and> 0 \<le> hitDraw
      \<longrightarrow> player_turn cfg p m hitDraw critDraw = Inr (Missed, m))
   \<and> (Monster_hitChance cfg m = 0 \<and> 0 \<le> hitDraw
      \<longrightarrow> monster_turn cfg m p Attack hitDraw critDraw evadeDraw = Inr (Missed, p))"
  by (simp add: player_turn_def monster_turn_def odds_def js_div_def)

theorem zero_hit_chance_misses_witness:
  "Monster_hitChance (test_config\<lparr> BASE_HIT_CHANCE := 0 \<rparr>) (test_monster 30 30 []) = 0
   \<and> Player_hitChance (test_config\<lparr> BASE_HIT_CHANCE := 0 \<rparr>) (test_player [] None) = Inr (Some 0)
   \<and> player_turn (test_config\<lparr> BASE_HIT_CHANCE := 0 \<rparr>) (test_player [] None)
        (test_monster 30 30 []) 0 0 = Inr (Missed, test_monster 30 30 [])
   \<and> monster_turn (test_config\<lparr> BASE_HIT_CHANCE := 0 \<rparr>) (test_monster 30 30 [])
        (test_player [] None) Attack 0 0 0 = Inr (Missed, test_player [] None)"
proof -
  let ?cfg = "test_config\<lparr> BASE_HIT_CHANCE := 0 \<rparr>"
  have a: "Monster_hitChance ?cfg (test_monster 30 30 []) = 0"
    by (simp add: Monster_hitChance_def)
  have b: "Player_hitChance ?cfg (test_player [] None) = Inr (Some 0)"
    by (simp add: test_player_def test_config_def Player_hitChance_def
      Stats_getBonus_def Stats_get_def Stats_new_def Object_values_def StatType_prop_def
      array_includes_def calculateStatBonus_def js_add_def js_mul_def)
  from a b zero_hit_chance_misses [of ?cfg "test_player [] None" 0 "test_monster 30 30 []" 0 0]
  show ?thesis by simp
qed

text \<open>
  A constructed player always has a weapon equipped: the one
  supplied, or the \<open>1d4\<close> "Worn Dagger".
\<close>

theorem Player_new_always_armed:
  "(\<forall>p. Player_new cfg a = Inr p \<longrightarrow>
        p_equippedWeapon p =
          Some (case a_equippedWeapon a of
                  None \<Rightarrow> \<lparr> w_name = ''Worn Dagger'', w_type = ''Weapon'',
                            w_damage = Some ''1d4'', w_effect = ''None'' \<rparr>
                | Some w \<Rightarrow> w))"
  by (auto simp: Player_new_def Let_def split: sum.splits option.splits)

theorem Player_new_always_armed_witness:
  "Player_new test_config (test_player_args [(''STR'', 14)]) =
     Inr (test_player [(''STR'', 14)]
            (Some \<lparr> w_name = ''Worn Dagger'', w_type = ''Weapon'', w_damage = Some ''1d4'',
                    w_effect = ''None'' \<rparr>))
   \<and> p_equippedWeapon (test_player [(''STR'', 14)]
            (Some \<lparr> w_name = ''Worn Dagger'', w_type = ''Weapon'', w_damage = Some ''1d4'',
                    w_effect = ''None'' \<rparr>))
       = Some \<lparr> w_name = ''Worn Dagger'', w_type = ''Weapon'', w_damage = Some ''1d4'',
                w_effect = ''None'' \<rparr>"
  using Player_new_always_armed [of test_config "test_player_args [(''STR'', 14)]"] Player_new_test
  by (simp add: test_player_def)

end
